theory Spec2Isabelle
  imports Main
begin

section \<open>The payment-management router\<close>

text \<open>
  A shallow embedding of \<^verbatim>\<open>src/server/api/routers/payment-management.ts\<close>.
  Every handler is a function from the world it runs in (the relational store behind
  \<^verbatim>\<open>ctx.db\<close>, the payment provider behind the SDK, and the trace of the calls made so
  far) to its outcome and the world it leaves: a thrown error is \<open>Inl\<close>, a returned value
  is \<open>Inr\<close>, and the effects made before a throw stay in the world.
\<close>

subsection \<open>Dates\<close>

text \<open>
  A JavaScript \<^verbatim>\<open>Date\<close> is held by its local calendar fields, the ones \<^verbatim>\<open>setHours\<close> and
  \<^verbatim>\<open>setDate\<close> write. Within one time zone two instants are ordered as their fields are,
  read from the year down to the millisecond, which is what \<^verbatim>\<open>gte\<close> compares.
\<close>

record Date =
  year :: int
  month :: nat
  day :: nat
  hours :: nat
  minutes :: nat
  seconds :: nat
  milliseconds :: nat

definition setHours :: "nat \<Rightarrow> nat \<Rightarrow> nat \<Rightarrow> nat \<Rightarrow> Date \<Rightarrow> Date" where
  "setHours h m s ms d = d\<lparr>hours := h, minutes := m, seconds := s, milliseconds := ms\<rparr>"

definition setDate :: "nat \<Rightarrow> Date \<Rightarrow> Date" where
  "setDate n d = d\<lparr>day := n\<rparr>"

definition calendar :: "Date \<Rightarrow> int list" where
  "calendar d = [year d, int (month d), int (day d), int (hours d), int (minutes d),
     int (seconds d), int (milliseconds d)]"

fun lex_le :: "int list \<Rightarrow> int list \<Rightarrow> bool" where
  "lex_le [] ys = True"
| "lex_le (x # xs) [] = False"
| "lex_le (x # xs) (y # ys) = (x < y \<or> (x = y \<and> lex_le xs ys))"

definition gte :: "Date \<Rightarrow> Date \<Rightarrow> bool" where
  "gte a b = lex_le (calendar b) (calendar a)"

text \<open>\<^verbatim>\<open>const today = new Date(); today.setHours(0, 0, 0, 0)\<close>, with \<open>now\<close> the clock read.\<close>

definition startOfDay :: "Date \<Rightarrow> Date" where
  "startOfDay now = setHours 0 0 0 0 now"

text \<open>\<^verbatim>\<open>monthStart.setDate(1); monthStart.setHours(0, 0, 0, 0)\<close>.\<close>

definition startOfMonth :: "Date \<Rightarrow> Date" where
  "startOfMonth now = setHours 0 0 0 0 (setDate 1 now)"

subsection \<open>Session, configuration and errors\<close>

record user =
  user_id :: string
  email :: "string option"
  role :: string

record session =
  user :: user

text \<open>\<open>session ctx = None\<close> is a request with no session; \<^verbatim>\<open>ctx.db\<close> is part of the world.\<close>

record ctx =
  session :: "session option"

text \<open>
  The values read from \<^verbatim>\<open>env\<close>, each absent or a string, and the one value the module
  reads from \<^verbatim>\<open>process.env\<close> under another name, \<^verbatim>\<open>LEMONSQUEEZY_STORE_ID\<close>.
\<close>

record env =
  LEMON_SQUEEZY_API_KEY :: "string option"
  LEMON_SQUEEZY_STORE_ID :: "string option"
  LEMON_SQUEEZY_WEBHOOK_URL :: "string option"
  LEMON_SQUEEZY_WEBHOOK_SECRET :: "string option"
  NEXT_PUBLIC_DEPLOYMENT_URL :: "string option"
  process_env_LEMONSQUEEZY_STORE_ID :: "string option"

text \<open>
  \<^verbatim>\<open>new Error(message)\<close> carries its message; \<open>TypeError\<close> is what reading a property of
  an absent session throws; the store rejects a write with a known request error and its
  code, \<^verbatim>\<open>P2002\<close> for a unique constraint.
\<close>

datatype error = Error string | TypeError | PrismaClientKnownRequestError string

text \<open>The value of \<^verbatim>\<open>v\<close> where \<^verbatim>\<open>!v\<close> is false: \<^verbatim>\<open>undefined\<close> and the empty string are falsy.\<close>

definition truthy :: "string option \<Rightarrow> string option" where
  "truthy v = (case v of None \<Rightarrow> None | Some s \<Rightarrow> if s = [] then None else Some s)"

text \<open>A value inside a template literal: \<^verbatim>\<open>undefined\<close> prints as its name.\<close>

definition template :: "string option \<Rightarrow> string" where
  "template v = (case v of None \<Rightarrow> ''undefined'' | Some s \<Rightarrow> s)"

subsection \<open>Rows, provider entities and events\<close>

text \<open>
  The rows hold the columns the handlers read and write. The click counter is an integer.
\<close>

record featureUsage_row =
  userId :: string
  date :: Date
  buttonClicks :: int

record plan_row =
  lemonSqueezyVariantId :: string
  plan_name :: string

record lemonSqueezySubscription_row =
  subscription_userId :: string
  variantId :: string

record oneTimePurchase_row =
  purchase_userId :: string
  purchase_id :: string

record webhook =
  webhook_store_id :: string
  url :: string
  test_mode :: bool
  events :: "string list"

record new_webhook =
  new_secret :: "string option"
  new_url :: string
  new_testMode :: bool
  new_events :: "string list"

record variant =
  variant_id :: string
  variant_name :: string
  variant_status :: string
  variant_product_id :: nat

record product =
  product_id :: string
  product_name :: string

record new_checkout =
  checkout_email :: string
  checkout_userIdInDatabase :: "string option"
  checkout_redirectUrl :: string
  checkout_embed :: "bool option"

record checkout =
  checkout_storeId :: string
  checkout_variantId :: string
  checkout_options :: new_checkout

text \<open>
  What an SDK call resolves to: \<open>data\<close> is the body of the provider's answer, absent when
  there is none. For the list calls the body is the list the source reads as
  \<^verbatim>\<open>response.data?.data\<close>.
\<close>

datatype 'a response = Response (data: "'a option")

text \<open>
  What a handler does to the outside, in order: the client setup, the requests the SDK
  sends to the provider, and the operations asked of the store.
\<close>

datatype event =
    LemonSqueezySetup "string option"
  | ListWebhooks "string option"
  | CreateWebhook "string option" new_webhook
  | GetVariant string
  | GetProduct string
  | ListVariants "string option"
  | ListProducts
  | CreateCheckout string string new_checkout
  | Subscription_findFirst string
  | Plan_findFirst "string option"
  | Plan_findUnique string
  | Plan_create plan_row
  | Plan_findMany
  | FeatureUsage_upsert string Date int
  | FeatureUsage_findFirst string Date
  | FeatureUsage_findMany string Date
  | OneTimePurchase_findMany string

subsection \<open>The relational store\<close>

text \<open>
  A table is the list of its rows in the order they were created. \<^verbatim>\<open>findFirst\<close> is called
  with no \<^verbatim>\<open>orderBy\<close>: which of several matching rows it returns is the store's choice,
  held here as \<open>pick\<close>, a number for each query that selects among the matching rows.
\<close>

record database =
  featureUsage :: "featureUsage_row list"
  plan :: "plan_row list"
  lemonSqueezySubscription :: "lemonSqueezySubscription_row list"
  oneTimePurchase :: "oneTimePurchase_row list"
  pick :: "event \<Rightarrow> nat"

definition chosen :: "nat \<Rightarrow> 'a list \<Rightarrow> 'a option" where
  "chosen n xs = (if xs = [] then None else Some (xs ! (n mod length xs)))"

subsection \<open>The payment provider\<close>

text \<open>
  The provider as the handlers see it through the SDK: the webhooks, variants and
  products it holds, and whether it answers. A provider that is not \<open>ls_up\<close> answers every
  request with no data and registers nothing.
\<close>

record provider =
  ls_webhooks :: "webhook list"
  ls_variants :: "variant list"
  ls_products :: "product list"
  ls_up :: bool

subsection \<open>The world and its trace\<close>

record world =
  db :: database
  lemonsqueezy :: provider
  trace :: "event list"

definition emit :: "event \<Rightarrow> world \<Rightarrow> world" where
  "emit e w = w\<lparr>trace := trace w @ [e]\<rparr>"

text \<open>The requests that go over the network, and the store operations that write.\<close>

fun network_call :: "event \<Rightarrow> bool" where
  "network_call (ListWebhooks _) = True"
| "network_call (CreateWebhook _ _) = True"
| "network_call (GetVariant _) = True"
| "network_call (GetProduct _) = True"
| "network_call (ListVariants _) = True"
| "network_call ListProducts = True"
| "network_call (CreateCheckout _ _ _) = True"
| "network_call _ = False"

fun creates_webhook :: "event \<Rightarrow> bool" where
  "creates_webhook (CreateWebhook _ _) = True"
| "creates_webhook _ = False"

fun db_write :: "event \<Rightarrow> bool" where
  "db_write (Plan_create _) = True"
| "db_write (FeatureUsage_upsert _ _ _) = True"
| "db_write _ = False"

text \<open>
  Running \<open>f\<close> on the value of \<open>m\<close>, or passing on what \<open>m\<close> threw: an \<^verbatim>\<open>await\<close> in a
  handler.
\<close>

definition await ::
  "(error + 'a) \<times> world \<Rightarrow> ('a \<Rightarrow> world \<Rightarrow> (error + 'b) \<times> world) \<Rightarrow> (error + 'b) \<times> world" where
  "await m f = (case m of (Inl e, w) \<Rightarrow> (Inl e, w) | (Inr x, w) \<Rightarrow> f x w)"

subsection \<open>The SDK\<close>

text \<open>
  \<^verbatim>\<open>lemonSqueezySetup\<close> configures the client with an API key and talks to nobody; the
  key in force is the one of the latest setup. A call first checks its required
  parameters and throws when one is missing. Then, with no key, it sends nothing and
  resolves with no data; with a key it sends its request, which the trace records with the
  arguments the handler passed, and resolves with the provider's answer.
  \<^verbatim>\<open>listWebhooks\<close> with a store filter lists that store's webhooks, and all of them with
  none; \<^verbatim>\<open>createWebhook\<close> registers the webhook in the store it names when the provider is
  up and a secret is given.
\<close>

definition setupLemonSqueezy :: "env \<Rightarrow> world \<Rightarrow> world" where
  "setupLemonSqueezy e w = emit (LemonSqueezySetup (LEMON_SQUEEZY_API_KEY e)) w"

definition apiKey :: "world \<Rightarrow> string option" where
  "apiKey w =
     foldl (\<lambda>k ev. case ev of LemonSqueezySetup k' \<Rightarrow> truthy k' | _ \<Rightarrow> k) None (trace w)"

definition requiredCheck :: "string \<Rightarrow> string \<Rightarrow> error option" where
  "requiredCheck key v =
     (if v = [] then Some (Error (''Please provide the required parameter: '' @ key @ ''.''))
      else None)"

definition fetch :: "event \<Rightarrow> 'a option \<Rightarrow> world \<Rightarrow> 'a response \<times> world" where
  "fetch request body w =
     (case apiKey w of
        None \<Rightarrow> (Response None, w)
      | Some k \<Rightarrow> (Response (if ls_up (lemonsqueezy w) then body else None), emit request w))"

definition in_store :: "string option \<Rightarrow> webhook \<Rightarrow> bool" where
  "in_store storeId wh = (case storeId of None \<Rightarrow> True | Some s \<Rightarrow> webhook_store_id wh = s)"

definition listWebhooks :: "string option \<Rightarrow> world \<Rightarrow> webhook list response \<times> world" where
  "listWebhooks storeId w =
     fetch (ListWebhooks storeId)
       (Some (filter (in_store storeId) (ls_webhooks (lemonsqueezy w)))) w"

definition registered :: "string \<Rightarrow> new_webhook \<Rightarrow> provider \<Rightarrow> webhook option" where
  "registered s n p =
     (if ls_up p \<and> truthy (new_secret n) \<noteq> None
      then Some \<lparr>webhook_store_id = s, url = new_url n, test_mode = new_testMode n,
                 events = new_events n\<rparr>
      else None)"

definition register :: "string \<Rightarrow> new_webhook \<Rightarrow> provider \<Rightarrow> provider" where
  "register s n p =
     (case registered s n p of
        None \<Rightarrow> p
      | Some wh \<Rightarrow> p\<lparr>ls_webhooks := ls_webhooks p @ [wh]\<rparr>)"

definition createWebhook ::
  "string option \<Rightarrow> new_webhook \<Rightarrow> world \<Rightarrow> (error + webhook response) \<times> world" where
  "createWebhook storeId n w =
     (case truthy storeId of
        None \<Rightarrow> (Inl (Error ''Please provide the required parameter: storeId.''), w)
      | Some s \<Rightarrow>
          (case apiKey w of
             None \<Rightarrow> (Inr (Response None), w)
           | Some k \<Rightarrow>
               (Inr (Response (registered s n (lemonsqueezy w))),
                emit (CreateWebhook storeId n)
                  (w\<lparr>lemonsqueezy := register s n (lemonsqueezy w)\<rparr>))))"

definition getVariant :: "string \<Rightarrow> world \<Rightarrow> (error + variant response) \<times> world" where
  "getVariant variantId' w =
     (case requiredCheck ''variantId'' variantId' of
        Some err \<Rightarrow> (Inl err, w)
      | None \<Rightarrow>
          (let (r, w') = fetch (GetVariant variantId')
                 (find (\<lambda>v. variant_id v = variantId') (ls_variants (lemonsqueezy w))) w
           in (Inr r, w')))"

definition getProduct :: "string \<Rightarrow> world \<Rightarrow> (error + product response) \<times> world" where
  "getProduct productId w =
     (case requiredCheck ''productId'' productId of
        Some err \<Rightarrow> (Inl err, w)
      | None \<Rightarrow>
          (let (r, w') = fetch (GetProduct productId)
                 (find (\<lambda>p. product_id p = productId) (ls_products (lemonsqueezy w))) w
           in (Inr r, w')))"

text \<open>JavaScript's \<^verbatim>\<open>String(n)\<close> on a natural number: its decimal digits.\<close>

fun String_of :: "nat \<Rightarrow> string" where
  "String_of n =
     (if n < 10 then [char_of (48 + n)] else String_of (n div 10) @ [char_of (48 + n mod 10)])"

declare String_of.simps [simp del]

definition of_product :: "string option \<Rightarrow> variant \<Rightarrow> bool" where
  "of_product productId v =
     (case productId of None \<Rightarrow> True | Some p \<Rightarrow> String_of (variant_product_id v) = p)"

definition listVariants :: "string option \<Rightarrow> world \<Rightarrow> variant list response \<times> world" where
  "listVariants productId w =
     fetch (ListVariants productId)
       (Some (filter (of_product productId) (ls_variants (lemonsqueezy w)))) w"

definition listProducts :: "world \<Rightarrow> product list response \<times> world" where
  "listProducts w = fetch ListProducts (Some (ls_products (lemonsqueezy w))) w"

definition createCheckout ::
  "string \<Rightarrow> string \<Rightarrow> new_checkout \<Rightarrow> world \<Rightarrow> (error + checkout response) \<times> world" where
  "createCheckout storeId variantId' opts w =
     (case requiredCheck ''storeId'' storeId of
        Some err \<Rightarrow> (Inl err, w)
      | None \<Rightarrow>
          (case requiredCheck ''variantId'' variantId' of
             Some err \<Rightarrow> (Inl err, w)
           | None \<Rightarrow>
               (let (r, w') = fetch (CreateCheckout storeId variantId' opts)
                      (Some \<lparr>checkout_storeId = storeId, checkout_variantId = variantId',
                             checkout_options = opts\<rparr>) w
                in (Inr r, w'))))"

subsection \<open>The store's operations\<close>

text \<open>
  \<^verbatim>\<open>upsert\<close> on the unique key: the row that matches is updated in place, and a new row
  is created, after the others, only when none matches.
\<close>

fun upsert :: "('a \<Rightarrow> bool) \<Rightarrow> ('a \<Rightarrow> 'a) \<Rightarrow> 'a \<Rightarrow> 'a list \<Rightarrow> 'a list" where
  "upsert P update create [] = [create]"
| "upsert P update create (r # rs) =
     (if P r then update r # rs else r # upsert P update create rs)"

definition featureUsage_upsert :: "string \<Rightarrow> Date \<Rightarrow> int \<Rightarrow> world \<Rightarrow> world" where
  "featureUsage_upsert uid d amount w =
     emit (FeatureUsage_upsert uid d amount)
       (w\<lparr>db := (db w)\<lparr>featureUsage :=
          upsert (\<lambda>r. userId r = uid \<and> date r = d)
            (\<lambda>r. r\<lparr>buttonClicks := buttonClicks r + amount\<rparr>)
            \<lparr>userId = uid, date = d, buttonClicks = amount\<rparr>
            (featureUsage (db w))\<rparr>\<rparr>)"

definition featureUsage_findFirst ::
  "string \<Rightarrow> Date \<Rightarrow> world \<Rightarrow> featureUsage_row option \<times> world" where
  "featureUsage_findFirst uid d w =
     (chosen (pick (db w) (FeatureUsage_findFirst uid d))
        (filter (\<lambda>r. userId r = uid \<and> gte (date r) d) (featureUsage (db w))),
      emit (FeatureUsage_findFirst uid d) w)"

definition featureUsage_findMany ::
  "string \<Rightarrow> Date \<Rightarrow> world \<Rightarrow> featureUsage_row list \<times> world" where
  "featureUsage_findMany uid d w =
     (filter (\<lambda>r. userId r = uid \<and> gte (date r) d) (featureUsage (db w)),
      emit (FeatureUsage_findMany uid d) w)"

definition subscription_findFirst ::
  "string \<Rightarrow> world \<Rightarrow> lemonSqueezySubscription_row option \<times> world" where
  "subscription_findFirst uid w =
     (chosen (pick (db w) (Subscription_findFirst uid))
        (filter (\<lambda>s. subscription_userId s = uid) (lemonSqueezySubscription (db w))),
      emit (Subscription_findFirst uid) w)"

text \<open>A \<^verbatim>\<open>where\<close> field that is \<^verbatim>\<open>undefined\<close> filters nothing.\<close>

definition plan_findFirst :: "string option \<Rightarrow> world \<Rightarrow> plan_row option \<times> world" where
  "plan_findFirst v w =
     (chosen (pick (db w) (Plan_findFirst v))
        (filter (\<lambda>p. case v of None \<Rightarrow> True | Some i \<Rightarrow> lemonSqueezyVariantId p = i)
           (plan (db w))),
      emit (Plan_findFirst v) w)"

text \<open>
  \<^verbatim>\<open>lemonSqueezyVariantId\<close> is a unique key of the plans: \<^verbatim>\<open>findUnique\<close> returns the row
  that has it, and \<^verbatim>\<open>create\<close> is rejected with \<^verbatim>\<open>P2002\<close> when a row has it already.
\<close>

definition plan_findUnique :: "string \<Rightarrow> world \<Rightarrow> plan_row option \<times> world" where
  "plan_findUnique i w =
     (find (\<lambda>p. lemonSqueezyVariantId p = i) (plan (db w)), emit (Plan_findUnique i) w)"

definition plan_create :: "plan_row \<Rightarrow> world \<Rightarrow> (error + plan_row) \<times> world" where
  "plan_create p w =
     (if find (\<lambda>q. lemonSqueezyVariantId q = lemonSqueezyVariantId p) (plan (db w)) = None
      then (Inr p, emit (Plan_create p) (w\<lparr>db := (db w)\<lparr>plan := plan (db w) @ [p]\<rparr>\<rparr>))
      else (Inl (PrismaClientKnownRequestError ''P2002''), emit (Plan_create p) w))"

definition plan_findMany :: "world \<Rightarrow> plan_row list \<times> world" where
  "plan_findMany w = (plan (db w), emit Plan_findMany w)"

definition oneTimePurchase_findMany :: "string \<Rightarrow> world \<Rightarrow> oneTimePurchase_row list \<times> world" where
  "oneTimePurchase_findMany uid w =
     (filter (\<lambda>p. purchase_userId p = uid) (oneTimePurchase (db w)),
      emit (OneTimePurchase_findMany uid) w)"

text \<open>
  \<^verbatim>\<open>ctx.db.$transaction\<close>: the writes of a body that throws are undone; what the body
  asked of the store stays in the trace.
\<close>

definition transaction :: "(world \<Rightarrow> (error + 'a) \<times> world) \<Rightarrow> world \<Rightarrow> (error + 'a) \<times> world" where
  "transaction body w =
     (case body w of
        (Inl e, w') \<Rightarrow> (Inl e, w'\<lparr>db := db w\<rparr>)
      | (Inr x, w') \<Rightarrow> (Inr x, w'))"

subsection \<open>The handlers\<close>

definition hasWebhook :: "env \<Rightarrow> world \<Rightarrow> (error + webhook option) \<times> world" where
  "hasWebhook e w =
     (let w1 = setupLemonSqueezy e w in
      case truthy (LEMON_SQUEEZY_WEBHOOK_URL e) of
        None \<Rightarrow>
          (Inl (Error ''Missing required WEBHOOK_URL env variable. Please, set it in your .env file.''),
           w1)
      | Some webhookUrl \<Rightarrow>
          (let (allWebhooks, w2) = listWebhooks (process_env_LEMONSQUEEZY_STORE_ID e) w1;
               webhook = (case data allWebhooks of
                            None \<Rightarrow> None
                          | Some whs \<Rightarrow> find (\<lambda>wh. url wh = webhookUrl \<and> test_mode wh) whs)
           in (Inr webhook, w2)))"

record subscription_result =
  res_subscription :: "lemonSqueezySubscription_row option"
  res_variant :: "variant response option"
  res_plan :: "plan_row option"

definition getSubscriptionByUserId ::
  "env \<Rightarrow> ctx \<Rightarrow> world \<Rightarrow> (error + subscription_result) \<times> world" where
  "getSubscriptionByUserId e c w =
     (let w1 = setupLemonSqueezy e w in
      case map_option user (session c) of
        None \<Rightarrow> (Inl (Error ''User not found in session''), w1)
      | Some u \<Rightarrow>
          (let (subscription, w2) = subscription_findFirst (user_id u) w1 in
           await
             (case truthy (map_option variantId subscription) of
                None \<Rightarrow> (Inr None, w2)
              | Some v \<Rightarrow> await (getVariant v w2) (\<lambda>r w'. (Inr (Some r), w')))
             (\<lambda>variant w3.
                let (plan', w4) = plan_findFirst (map_option variantId subscription) w3
                in (Inr \<lparr>res_subscription = subscription, res_variant = variant,
                         res_plan = plan'\<rparr>, w4))))"

record product_result =
  res_product :: "product option"
  res_variants :: "variant list option"

definition getProductById ::
  "env \<Rightarrow> string \<Rightarrow> bool option \<Rightarrow> world \<Rightarrow> (error + product_result) \<times> world" where
  "getProductById e productId hideDefaultVariant w =
     (let w1 = setupLemonSqueezy e w in
      await (getProduct productId w1)
        (\<lambda>getProductQuery w2.
           let (getProductVariantsQuery, w3) = listVariants (Some productId) w2;
               variants =
                 map_option
                   (filter (\<lambda>variant.
                      if hideDefaultVariant = Some True
                      then variant_status variant \<noteq> ''pending''
                      else True))
                   (data getProductVariantsQuery);
               product = data getProductQuery
           in (Inr \<lparr>res_product = product, res_variants = variants\<rparr>, w3)))"

text \<open>The \<^verbatim>\<open>console.log\<close> of the checkout handler writes to the server's log only.\<close>

definition createCheckoutForVariant ::
  "env \<Rightarrow> ctx \<Rightarrow> string \<Rightarrow> bool option \<Rightarrow> world \<Rightarrow> (error + checkout response) \<times> world" where
  "createCheckoutForVariant e c variantId' embed' w =
     (let w1 = setupLemonSqueezy e w;
          user' = map_option user (session c) in
      case truthy (LEMON_SQUEEZY_STORE_ID e) of
        None \<Rightarrow>
          (Inl (Error ''Missing required LEMON_SQUEEZY_STORE_ID env variable. Please, set it in your .env file.''),
           w1)
      | Some storeId \<Rightarrow>
          await
            (createCheckout storeId variantId'
               \<lparr>checkout_email =
                  (case user' of
                     None \<Rightarrow> ''undefined''
                   | Some u \<Rightarrow> (case email u of None \<Rightarrow> ''undefined'' | Some m \<Rightarrow> m)),
                checkout_userIdInDatabase = map_option user_id user',
                checkout_redirectUrl = template (NEXT_PUBLIC_DEPLOYMENT_URL e) @ ''/billing'',
                checkout_embed = embed'\<rparr>
               w1)
            (\<lambda>checkout w2. (Inr checkout, w2)))"

definition createLsWebhook :: "env \<Rightarrow> ctx \<Rightarrow> world \<Rightarrow> (error + unit) \<times> world" where
  "createLsWebhook e c w =
     (let w1 = emit (LemonSqueezySetup (LEMON_SQUEEZY_API_KEY e)) w in
      case session c of
        None \<Rightarrow> (Inl TypeError, w1)
      | Some s \<Rightarrow>
          if role (user s) \<noteq> ''SUPER_ADMIN''
          then (Inl (Error ''Unauthorized access to the resource''), w1)
          else
            (case truthy (LEMON_SQUEEZY_WEBHOOK_URL e) of
               None \<Rightarrow>
                 (Inl (Error ''Missing required LEMON_SQUEEZY_WEBHOOK_URL env variable. Please, set it in your .env file.''),
                  w1)
             | Some webHookUrl \<Rightarrow>
                 await (hasWebhook e w1)
                   (\<lambda>webHook w2.
                      if webHook = None
                      then await
                             (createWebhook (LEMON_SQUEEZY_STORE_ID e)
                                \<lparr>new_secret = LEMON_SQUEEZY_WEBHOOK_SECRET e,
                                 new_url = webHookUrl, new_testMode = True,
                                 new_events = [''subscription_created'', ''subscription_expired'',
                                               ''subscription_updated'']\<rparr>
                                w2)
                             (\<lambda>created w3. (Inr (), w3))
                      else (Inr (), w2))))"

definition getWebhook :: "env \<Rightarrow> world \<Rightarrow> (error + webhook option) \<times> world" where
  "getWebhook e w = hasWebhook e w"

text \<open>
  \<^verbatim>\<open>variants.map(async ...)\<close> starts the callback of every variant, and each runs as far
  as its first \<^verbatim>\<open>await\<close>, the \<^verbatim>\<open>findUnique\<close>: all the lookups are asked of the store
  before any callback goes on. Then each callback resumes, in the order of the array, and
  creates its row when its lookup found none. \<^verbatim>\<open>Promise.all\<close> resolves to the plans of
  all the callbacks, or rejects with the first rejection; the other callbacks finish all
  the same.
\<close>

fun findPlans :: "variant list \<Rightarrow> world \<Rightarrow> plan_row option list \<times> world" where
  "findPlans [] w = ([], w)"
| "findPlans (v # vs) w =
     (let (existingPlan, w1) = plan_findUnique (variant_id v) w;
          (rest, w2) = findPlans vs w1
      in (existingPlan # rest, w2))"

fun resumePlans ::
  "(variant \<times> plan_row option) list \<Rightarrow> world \<Rightarrow> (error + plan_row) list \<times> world" where
  "resumePlans [] w = ([], w)"
| "resumePlans ((variant', existingPlan) # rest) w =
     (let (r, w1) =
            (case existingPlan of
               None \<Rightarrow>
                 plan_create
                   \<lparr>lemonSqueezyVariantId = variant_id variant',
                    plan_name = variant_name variant'\<rparr> w
             | Some p \<Rightarrow> (Inr p, w));
          (rs, w2) = resumePlans rest w1
      in (r # rs, w2))"

fun Promise_all :: "(error + 'a) list \<Rightarrow> error + 'a list" where
  "Promise_all [] = Inr []"
| "Promise_all (Inl err # rs) = Inl err"
| "Promise_all (Inr x # rs) =
     (case Promise_all rs of Inl err \<Rightarrow> Inl err | Inr xs \<Rightarrow> Inr (x # xs))"

definition createPlans :: "variant list \<Rightarrow> world \<Rightarrow> (error + plan_row list) \<times> world" where
  "createPlans variants w =
     (let (found, w1) = findPlans variants w;
          (results, w2) = resumePlans (zip variants found) w1
      in (Promise_all results, w2))"

definition createPlansFromLemonSqueezyVariants ::
  "env \<Rightarrow> ctx \<Rightarrow> world \<Rightarrow> (error + plan_row list) \<times> world" where
  "createPlansFromLemonSqueezyVariants e c w =
     (case session c of
        None \<Rightarrow> (Inl TypeError, w)
      | Some s \<Rightarrow>
          if role (user s) \<noteq> ''SUPER_ADMIN''
          then (Inl (Error ''Unauthorized access to the resource''), w)
          else
            (let w1 = setupLemonSqueezy e w;
                 (variantsResponse, w2) = listVariants None w1
             in case data variantsResponse of
                  None \<Rightarrow> (Inl (Error ''Failed to fetch variants from Lemon Squeezy.''), w2)
                | Some variants \<Rightarrow> createPlans variants w2))"

text \<open>
  A product with its variants, each variant with its \<^verbatim>\<open>hasCorrespondingPlanInDB\<close>; the
  variants are absent when the variants response has no data, and the whole result is
  when the products response has none.
\<close>

type_synonym product_with_variants = "product \<times> (variant \<times> bool) list option"

definition getProductsFromLemonSqueezy ::
  "env \<Rightarrow> world \<Rightarrow> (error + product_with_variants list option) \<times> world" where
  "getProductsFromLemonSqueezy e w =
     (let w1 = setupLemonSqueezy e w;
          (products, w2) = listProducts w1;
          (variants, w3) = listVariants None w2;
          (plansInDatabase, w4) = plan_findMany w3;
          planVariantIdsInDB = map lemonSqueezyVariantId plansInDatabase;
          productsWithVariants =
            map_option
              (map (\<lambda>product'.
                 (product',
                  map_option
                    (\<lambda>vs. map (\<lambda>variant'. (variant', variant_id variant' \<in> set planVariantIdsInDB))
                           (filter (\<lambda>variant'.
                              String_of (variant_product_id variant') = product_id product') vs))
                    (data variants))))
              (data products)
      in (Inr productsWithVariants, w4))"

definition spendCredits :: "Date \<Rightarrow> ctx \<Rightarrow> int \<Rightarrow> world \<Rightarrow> (error + unit) \<times> world" where
  "spendCredits now c amount w =
     (let today = startOfDay now in
      transaction
        (\<lambda>w'. case session c of
                 None \<Rightarrow> (Inl TypeError, w')
               | Some s \<Rightarrow> (Inr (), featureUsage_upsert (user_id (user s)) today amount w'))
        w)"

record usage =
  totalButtonClicksToday :: int
  totalButtonClicksThisMonth :: int

text \<open>Both clock reads of one call are taken at the same instant \<open>now\<close>.\<close>

definition getUsageForUser :: "Date \<Rightarrow> ctx \<Rightarrow> world \<Rightarrow> (error + usage) \<times> world" where
  "getUsageForUser now c w =
     (let todayStart = startOfDay now;
          monthStart = startOfMonth now
      in case session c of
           None \<Rightarrow> (Inl TypeError, w)
         | Some s \<Rightarrow>
             (let (todaysUsage, w1) = featureUsage_findFirst (user_id (user s)) todayStart w;
                  (currentMonthUsage, w2) = featureUsage_findMany (user_id (user s)) monthStart w1;
                  totalThisMonth = foldl (\<lambda>acc u. acc + buttonClicks u) 0 currentMonthUsage;
                  totalToday = (case todaysUsage of None \<Rightarrow> 0 | Some r \<Rightarrow> buttonClicks r)
              in (Inr \<lparr>totalButtonClicksToday = totalToday,
                       totalButtonClicksThisMonth = totalThisMonth\<rparr>, w2)))"

definition getOneTimePurchasesForUser ::
  "ctx \<Rightarrow> world \<Rightarrow> (error + oneTimePurchase_row list) \<times> world" where
  "getOneTimePurchasesForUser c w =
     (case session c of
        None \<Rightarrow> (Inl TypeError, w)
      | Some s \<Rightarrow>
          (let (oneTimePurchases, w1) = oneTimePurchase_findMany (user_id (user s)) w
           in (Inr oneTimePurchases, w1)))"

definition getAllVariants :: "env \<Rightarrow> world \<Rightarrow> (error + variant list response) \<times> world" where
  "getAllVariants e w =
     (let w1 = setupLemonSqueezy e w;
          (variants, w2) = listVariants None w1
      in (Inr variants, w2))"

subsection \<open>The router\<close>

text \<open>A call of one of the router's procedures with its input, and the world it leaves.\<close>

datatype procedure =
    GetSubscriptionByUserId
  | GetProductById string "bool option"
  | CreateCheckoutForVariant string "bool option"
  | CreateLsWebhook
  | GetWebhook
  | CreatePlansFromLemonSqueezyVariants
  | GetProductsFromLemonSqueezy
  | SpendCredits int
  | GetUsageForUser
  | GetOneTimePurchasesForUser
  | GetAllVariants

fun call :: "env \<Rightarrow> Date \<Rightarrow> ctx \<Rightarrow> procedure \<Rightarrow> world \<Rightarrow> world" where
  "call e now c GetSubscriptionByUserId w = snd (getSubscriptionByUserId e c w)"
| "call e now c (GetProductById productId hide) w = snd (getProductById e productId hide w)"
| "call e now c (CreateCheckoutForVariant v embed') w =
     snd (createCheckoutForVariant e c v embed' w)"
| "call e now c CreateLsWebhook w = snd (createLsWebhook e c w)"
| "call e now c GetWebhook w = snd (getWebhook e w)"
| "call e now c CreatePlansFromLemonSqueezyVariants w =
     snd (createPlansFromLemonSqueezyVariants e c w)"
| "call e now c GetProductsFromLemonSqueezy w = snd (getProductsFromLemonSqueezy e w)"
| "call e now c (SpendCredits amount) w = snd (spendCredits now c amount w)"
| "call e now c GetUsageForUser w = snd (getUsageForUser now c w)"
| "call e now c GetOneTimePurchasesForUser w = snd (getOneTimePurchasesForUser c w)"
| "call e now c GetAllVariants w = snd (getAllVariants e w)"

subsection \<open>Sequences of calls, the usage invariant, and sample worlds\<close>

text \<open>The \<^verbatim>\<open>spendCredits\<close> calls of one caller, each with its clock read and amount, in order.\<close>

fun spendAll :: "ctx \<Rightarrow> (Date \<times> int) list \<Rightarrow> world \<Rightarrow> world" where
  "spendAll c [] w = w"
| "spendAll c (x # xs) w = spendAll c xs (snd (spendCredits (fst x) c (snd x) w))"

text \<open>The compound key \<^verbatim>\<open>userId_date\<close>, and a table that holds each key once.\<close>

definition usage_key :: "featureUsage_row \<Rightarrow> string \<times> Date" where
  "usage_key r = (userId r, date r)"

definition one_row_per_user_day :: "world \<Rightarrow> bool" where
  "one_row_per_user_day w = distinct (map usage_key (featureUsage (db w)))"

text \<open>
  Sample inputs: a day of March 2024 at some hour, two users, a configuration, and a world
  whose store returns the first created of the matching rows.
\<close>

definition on_day :: "nat \<Rightarrow> nat \<Rightarrow> Date" where
  "on_day n h =
     \<lparr>year = 2024, month = 2, day = n, hours = h, minutes = 30, seconds = 15, milliseconds = 500\<rparr>"

definition alice :: user where
  "alice = \<lparr>user_id = ''u1'', email = Some ''alice@example.org'', role = ''USER''\<rparr>"

definition admin :: user where
  "admin = \<lparr>user_id = ''u0'', email = Some ''admin@example.org'', role = ''SUPER_ADMIN''\<rparr>"

definition signed_in :: "user \<Rightarrow> ctx" where
  "signed_in u = \<lparr>session = Some \<lparr>user = u\<rparr>\<rparr>"

definition anonymous :: ctx where
  "anonymous = \<lparr>session = None\<rparr>"

definition configured :: env where
  "configured =
     \<lparr>LEMON_SQUEEZY_API_KEY = Some ''key'', LEMON_SQUEEZY_STORE_ID = Some ''1'',
      LEMON_SQUEEZY_WEBHOOK_URL = Some ''https://app.example.org/api/webhook'',
      LEMON_SQUEEZY_WEBHOOK_SECRET = Some ''secret'',
      NEXT_PUBLIC_DEPLOYMENT_URL = Some ''https://app.example.org'',
      process_env_LEMONSQUEEZY_STORE_ID = None\<rparr>"

definition monthly :: variant where
  "monthly = \<lparr>variant_id = ''v1'', variant_name = ''Monthly'', variant_status = ''published'',
     variant_product_id = 7\<rparr>"

definition yearly :: variant where
  "yearly = \<lparr>variant_id = ''v2'', variant_name = ''Yearly'', variant_status = ''pending'',
     variant_product_id = 7\<rparr>"

definition shop :: provider where
  "shop = \<lparr>ls_webhooks = [], ls_variants = [monthly, yearly],
     ls_products = [\<lparr>product_id = ''7'', product_name = ''Starter''\<rparr>], ls_up = True\<rparr>"

definition world_with :: "featureUsage_row list \<Rightarrow> plan_row list \<Rightarrow> provider \<Rightarrow> world" where
  "world_with rows plans p =
     \<lparr>db = \<lparr>featureUsage = rows, plan = plans, lemonSqueezySubscription = [],
            oneTimePurchase = [], pick = (\<lambda>query. 0)\<rparr>,
      lemonsqueezy = p, trace = []\<rparr>"

text \<open>
  The row \<^verbatim>\<open>plan.create\<close> is given for a variant, and the row \<^verbatim>\<open>plan.findUnique\<close> finds for
  it in a table.
\<close>

definition plan_of :: "variant \<Rightarrow> plan_row" where
  "plan_of v = \<lparr>lemonSqueezyVariantId = variant_id v, plan_name = variant_name v\<rparr>"

definition existing :: "plan_row list \<Rightarrow> variant \<Rightarrow> plan_row option" where
  "existing plans v = find (\<lambda>p. lemonSqueezyVariantId p = variant_id v) plans"

text \<open>
  The webhook \<^verbatim>\<open>hasWebhook\<close> finds at a provider for a URL, and the webhook
  \<^verbatim>\<open>createLsWebhook\<close> asks for.
\<close>

definition listed :: "env \<Rightarrow> string \<Rightarrow> provider \<Rightarrow> webhook option" where
  "listed e webhookUrl p =
     (if truthy (LEMON_SQUEEZY_API_KEY e) \<noteq> None \<and> ls_up p
      then find (\<lambda>wh. url wh = webhookUrl \<and> test_mode wh)
             (filter (in_store (process_env_LEMONSQUEEZY_STORE_ID e)) (ls_webhooks p))
      else None)"

definition webhook_request :: "env \<Rightarrow> string \<Rightarrow> new_webhook" where
  "webhook_request e webHookUrl =
     \<lparr>new_secret = LEMON_SQUEEZY_WEBHOOK_SECRET e, new_url = webHookUrl, new_testMode = True,
      new_events = [''subscription_created'', ''subscription_expired'', ''subscription_updated'']\<rparr>"

section \<open>Properties\<close>

subsection \<open>Unfolding the operations\<close>

lemmas sdk_defs = setupLemonSqueezy_def fetch_def listWebhooks_def createWebhook_def
  getVariant_def getProduct_def listVariants_def listProducts_def createCheckout_def
  requiredCheck_def

lemmas store_defs = featureUsage_upsert_def featureUsage_findFirst_def featureUsage_findMany_def
  subscription_findFirst_def plan_findFirst_def plan_findUnique_def plan_create_def
  plan_findMany_def oneTimePurchase_findMany_def

lemmas date_defs = startOfDay_def startOfMonth_def setHours_def setDate_def gte_def calendar_def

lemmas sample_defs = on_day_def alice_def admin_def signed_in_def anonymous_def configured_def
  monthly_def yearly_def shop_def world_with_def

lemma emit_simps [simp]:
  "db (emit ev w) = db w"
  "lemonsqueezy (emit ev w) = lemonsqueezy w"
  "trace (emit ev w) = trace w @ [ev]"
  by (simp_all add: emit_def)

lemma await_simps [simp]:
  "await (Inl err, w) f = (Inl err, w)"
  "await (Inr x, w) f = f x w"
  by (simp_all add: await_def)

lemma apiKey_emit:
  "apiKey (emit ev w) = (case ev of LemonSqueezySetup k \<Rightarrow> truthy k | _ \<Rightarrow> apiKey w)"
  by (simp add: apiKey_def split: event.splits)

lemma apiKey_setup [simp]: "apiKey (setupLemonSqueezy e w) = truthy (LEMON_SQUEEZY_API_KEY e)"
  by (simp add: setupLemonSqueezy_def apiKey_emit)

lemma apiKey_update [simp]:
  "apiKey (w\<lparr>db := d\<rparr>) = apiKey w"
  "apiKey (w\<lparr>lemonsqueezy := p\<rparr>) = apiKey w"
  by (simp_all add: apiKey_def)

lemma fetch_frame [simp]:
  "db (snd (fetch request body w)) = db w"
  "lemonsqueezy (snd (fetch request body w)) = lemonsqueezy w"
  by (simp_all add: fetch_def split: option.splits)

lemma chosen_simps [simp]:
  "chosen n [] = None"
  "chosen n [x] = Some x"
  by (simp_all add: chosen_def)

lemma chosen_in: "xs \<noteq> [] \<Longrightarrow> \<exists>x\<in>set xs. chosen n xs = Some x"
  by (simp add: chosen_def)

lemma lex_le_refl: "lex_le xs xs"
  by (induction xs) auto

lemma gte_refl: "gte a a"
  by (simp add: gte_def lex_le_refl)

lemma upsert_absent: "\<forall>r\<in>set rows. \<not> P r \<Longrightarrow> upsert P f new rows = rows @ [new]"
  by (induction rows) auto

lemma upsert_present:
  "\<forall>r\<in>set pre. \<not> P r \<Longrightarrow> P r \<Longrightarrow> upsert P f new (pre @ r # post) = pre @ f r # post"
  by (induction pre) auto

lemma filter_absent: "\<forall>r\<in>set xs. \<not> P r \<Longrightarrow> filter P xs = []"
  by (induction xs) auto

subsection \<open>Usage metering\<close>

lemma spendCredits_rows:
  "session c = Some s \<Longrightarrow>
   featureUsage (db (snd (spendCredits now c a w))) =
     upsert (\<lambda>r. userId r = user_id (user s) \<and> date r = startOfDay now)
       (\<lambda>r. r\<lparr>buttonClicks := buttonClicks r + a\<rparr>)
       \<lparr>userId = user_id (user s), date = startOfDay now, buttonClicks = a\<rparr>
       (featureUsage (db w))"
  by (simp add: spendCredits_def transaction_def featureUsage_upsert_def emit_def Let_def)

lemma spendAll_existing:
  assumes "session c = Some s"
    and "\<forall>r\<in>set T. \<not> (userId r = user_id (user s) \<and> date r = today)"
  shows "\<forall>x\<in>set calls. startOfDay (fst x) = today \<Longrightarrow>
     featureUsage (db w) = T @ [\<lparr>userId = user_id (user s), date = today, buttonClicks = k\<rparr>] \<Longrightarrow>
     featureUsage (db (spendAll c calls w)) =
       T @ [\<lparr>userId = user_id (user s), date = today, buttonClicks = k + sum_list (map snd calls)\<rparr>]"
proof (induction calls arbitrary: w k)
  case Nil
  then show ?case by simp
next
  case (Cons x xs)
  let ?w = "snd (spendCredits (fst x) c (snd x) w)"
  have day: "startOfDay (fst x) = today" using Cons.prems(1) by simp
  have "featureUsage (db ?w) =
      T @ [\<lparr>userId = user_id (user s), date = today, buttonClicks = k + snd x\<rparr>]"
    using assms(2)
    by (simp add: spendCredits_rows [OF assms(1)] day Cons.prems(2) upsert_present)
  from Cons.IH [OF _ this] Cons.prems(1) show ?case
    by (simp add: add.assoc)
qed

lemma spendAll_fresh:
  assumes "session c = Some s"
    and "\<forall>r\<in>set (featureUsage (db w)). \<not> (userId r = user_id (user s) \<and> date r = today)"
    and "\<forall>x\<in>set calls. startOfDay (fst x) = today"
  shows "featureUsage (db (spendAll c calls w)) =
     featureUsage (db w) @
       (if calls = [] then []
        else [\<lparr>userId = user_id (user s), date = today, buttonClicks = sum_list (map snd calls)\<rparr>])"
proof (cases calls)
  case Nil
  then show ?thesis by simp
next
  case (Cons x xs)
  let ?w = "snd (spendCredits (fst x) c (snd x) w)"
  have day: "startOfDay (fst x) = today" using assms(3) Cons by simp
  have first: "featureUsage (db ?w) =
      featureUsage (db w) @ [\<lparr>userId = user_id (user s), date = today, buttonClicks = snd x\<rparr>]"
    using assms(2) by (simp add: spendCredits_rows [OF assms(1)] day upsert_absent)
  have rest: "\<forall>y\<in>set xs. startOfDay (fst y) = today" using assms(3) Cons by simp
  from spendAll_existing [OF assms(1) assms(2) rest first] Cons show ?thesis
    by simp
qed

lemma getUsageForUser_today:
  "session c = Some s \<Longrightarrow>
   \<exists>m. fst (getUsageForUser now c w) =
     Inr \<lparr>totalButtonClicksToday =
            (case chosen (pick (db w) (FeatureUsage_findFirst (user_id (user s)) (startOfDay now)))
                    (filter (\<lambda>r. userId r = user_id (user s) \<and> gte (date r) (startOfDay now))
                       (featureUsage (db w))) of None \<Rightarrow> 0 | Some r \<Rightarrow> buttonClicks r),
          totalButtonClicksThisMonth = m\<rparr>"
  by (simp add: getUsageForUser_def featureUsage_findFirst_def featureUsage_findMany_def
      Let_def)

text \<open>
  Where the caller has no row dated on or after the start of the day, the claim C1 makes
  holds whatever the store's choice: after calls with amounts \<open>a1..an\<close>, all on the day that
  starts at \<open>today\<close>, the table is the old one followed, when there was a call, by the
  caller's one row for \<open>today\<close> with \<open>a1 + ... + an\<close> clicks, and \<^verbatim>\<open>getUsageForUser\<close>, called
  on the same day, reports that sum.
\<close>

lemma spendCredits_accumulates:
  assumes "session c = Some s"
    and "\<forall>x\<in>set calls. startOfDay (fst x) = today"
    and "startOfDay now = today"
    and "\<forall>r\<in>set (featureUsage (db w)). userId r = user_id (user s) \<longrightarrow> \<not> gte (date r) today"
  shows "featureUsage (db (spendAll c calls w)) =
       featureUsage (db w) @
         (if calls = [] then []
          else [\<lparr>userId = user_id (user s), date = today,
                 buttonClicks = sum_list (map snd calls)\<rparr>]) \<and>
     (\<exists>m. fst (getUsageForUser now c (spendAll c calls w)) =
        Inr \<lparr>totalButtonClicksToday = sum_list (map snd calls),
             totalButtonClicksThisMonth = m\<rparr>)"
proof -
  have fresh: "\<forall>r\<in>set (featureUsage (db w)). \<not> (userId r = user_id (user s) \<and> date r = today)"
    using assms(4) gte_refl by auto
  have rows: "featureUsage (db (spendAll c calls w)) =
       featureUsage (db w) @
         (if calls = [] then []
          else [\<lparr>userId = user_id (user s), date = today,
                 buttonClicks = sum_list (map snd calls)\<rparr>])"
    by (rule spendAll_fresh [OF assms(1) fresh assms(2)])
  have none: "\<forall>r\<in>set (featureUsage (db w)).
      \<not> (userId r = user_id (user s) \<and> gte (date r) today)"
    using assms(4) by auto
  have "(case chosen n (filter (\<lambda>r. userId r = user_id (user s) \<and> gte (date r) today)
            (featureUsage (db (spendAll c calls w)))) of None \<Rightarrow> 0 | Some r \<Rightarrow> buttonClicks r) =
        sum_list (map snd calls)" for n
    by (cases "calls = []") (simp_all add: rows filter_absent [OF none] gte_refl)
  with getUsageForUser_today [OF assms(1), of now "spendAll c calls w"] rows assms(3)
  show ?thesis by simp
qed

text \<open>
  Claim C1 at an input where the code departs from it. The caller's first call is made
  when the server's clock reads 5 March, the later ones when it reads 3 March. On 3 March
  the caller has no row for that day; after one call of amount 2, \<^verbatim>\<open>getUsageForUser\<close> asks
  for the caller's rows dated on or after the start of 3 March, which the row of 5 March
  is too. With a store that returns that row it reports 7 as today's clicks, not 2; with a
  store that returns the other it reports 2.
\<close>

theorem getUsageForUser_reports_later_day:
  "featureUsage (db (spendAll (signed_in alice) [(on_day 5 9, 7)] (world_with [] [] shop))) =
     [\<lparr>userId = ''u1'', date = startOfDay (on_day 5 0), buttonClicks = 7\<rparr>] \<and>
   fst (getUsageForUser (on_day 3 20) (signed_in alice)
     (spendAll (signed_in alice) [(on_day 5 9, 7), (on_day 3 9, 2)] (world_with [] [] shop))) =
     Inr \<lparr>totalButtonClicksToday = 7, totalButtonClicksThisMonth = 9\<rparr> \<and>
   fst (getUsageForUser (on_day 3 20) (signed_in alice)
     (spendAll (signed_in alice) [(on_day 5 9, 7), (on_day 3 9, 2)]
        ((world_with [] [] shop)\<lparr>db := (db (world_with [] [] shop))\<lparr>pick := (\<lambda>query. 1)\<rparr>\<rparr>))) =
     Inr \<lparr>totalButtonClicksToday = 2, totalButtonClicksThisMonth = 9\<rparr>"
  by (simp add: sample_defs date_defs getUsageForUser_def spendCredits_def transaction_def
      store_defs chosen_def Let_def)

subsection \<open>Who writes the usage table\<close>

lemma findPlans_db: "db (snd (findPlans vs w)) = db w"
  by (induction vs arbitrary: w) (simp_all add: plan_findUnique_def split_def Let_def)

lemma resumePlans_featureUsage:
  "featureUsage (db (snd (resumePlans xs w))) = featureUsage (db w)"
proof (induction xs arbitrary: w)
  case Nil
  then show ?case by simp
next
  case (Cons x xs)
  obtain v found where x: "x = (v, found)" by (cases x)
  show ?case
    by (cases found) (simp_all add: x Cons.IH plan_create_def split_def Let_def)
qed

lemma createPlans_featureUsage:
  "featureUsage (db (snd (createPlans vs w))) = featureUsage (db w)"
  by (simp add: createPlans_def split_def Let_def resumePlans_featureUsage findPlans_db)

lemma hasWebhook_db: "db (snd (hasWebhook e w)) = db w"
  by (simp add: hasWebhook_def listWebhooks_def setupLemonSqueezy_def split_def Let_def
      split: option.splits)

lemma createWebhook_db: "db (snd (createWebhook storeId n w)) = db w"
  by (simp add: createWebhook_def split: option.splits)

lemma createLsWebhook_db: "db (snd (createLsWebhook e c w)) = db w"
proof -
  obtain r w2 where h: "hasWebhook e (emit (LemonSqueezySetup (LEMON_SQUEEZY_API_KEY e)) w) = (r, w2)"
    by (cases "hasWebhook e (emit (LemonSqueezySetup (LEMON_SQUEEZY_API_KEY e)) w)")
  have w2: "db w2 = db w"
    using hasWebhook_db [of e "emit (LemonSqueezySetup (LEMON_SQUEEZY_API_KEY e)) w"] h
    by simp
  have "db (snd (await (createWebhook storeId n w2) (\<lambda>created w3. (Inr (), w3)))) = db w"
    for storeId n
    using createWebhook_db [of storeId n w2] w2
    by (cases "createWebhook storeId n w2") (auto simp add: await_def split: sum.splits)
  then show ?thesis
    using w2
    by (cases r) (simp_all add: createLsWebhook_def h Let_def split: option.splits)
qed

lemma others_keep_featureUsage:
  "featureUsage (db (snd (getSubscriptionByUserId e c w))) = featureUsage (db w)"
  "featureUsage (db (snd (getProductById e pid hide w))) = featureUsage (db w)"
  "featureUsage (db (snd (createCheckoutForVariant e c v em w))) = featureUsage (db w)"
  "featureUsage (db (snd (getWebhook e w))) = featureUsage (db w)"
  "featureUsage (db (snd (createPlansFromLemonSqueezyVariants e c w))) = featureUsage (db w)"
  "featureUsage (db (snd (getProductsFromLemonSqueezy e w))) = featureUsage (db w)"
  "featureUsage (db (snd (getUsageForUser now c w))) = featureUsage (db w)"
  "featureUsage (db (snd (getOneTimePurchasesForUser c w))) = featureUsage (db w)"
  "featureUsage (db (snd (getAllVariants e w))) = featureUsage (db w)"
          apply (simp add: getSubscriptionByUserId_def getVariant_def requiredCheck_def
      setupLemonSqueezy_def store_defs split_def Let_def split: option.splits)
         apply (simp add: getProductById_def getProduct_def listVariants_def requiredCheck_def
      setupLemonSqueezy_def split_def Let_def)
        apply (simp add: createCheckoutForVariant_def createCheckout_def requiredCheck_def
      setupLemonSqueezy_def split_def Let_def split: option.splits)
       apply (simp add: getWebhook_def hasWebhook_db)
      apply (simp add: createPlansFromLemonSqueezyVariants_def createPlans_featureUsage
      listVariants_def setupLemonSqueezy_def split_def Let_def split: option.splits)
     apply (simp add: getProductsFromLemonSqueezy_def listProducts_def listVariants_def
      plan_findMany_def setupLemonSqueezy_def split_def Let_def)
    apply (simp add: getUsageForUser_def store_defs split_def Let_def split: option.splits)
   apply (simp add: getOneTimePurchasesForUser_def store_defs split_def Let_def split: option.splits)
  apply (simp add: getAllVariants_def listVariants_def setupLemonSqueezy_def split_def Let_def)
  done

lemma call_keeps_featureUsage:
  "\<forall>amount. p \<noteq> SpendCredits amount \<Longrightarrow>
   featureUsage (db (call e now c p w)) = featureUsage (db w)"
  by (cases p) (simp_all add: others_keep_featureUsage createLsWebhook_db)

lemma upsert_unique:
  "distinct (map k rows) \<Longrightarrow>
   upsert (\<lambda>r. k r = key) f new rows =
     (if \<exists>r\<in>set rows. k r = key then map (\<lambda>r. if k r = key then f r else r) rows
      else rows @ [new])"
proof (induction rows)
  case Nil
  then show ?case by simp
next
  case (Cons r rs)
  show ?case
  proof (cases "k r = key")
    case True
    with Cons.prems have "\<forall>x\<in>set rs. k x \<noteq> key"
      by (force simp add: image_iff)
    then have "map (\<lambda>r. if k r = key then f r else r) rs = rs"
      by (induction rs) auto
    with True show ?thesis by simp
  next
    case False
    with Cons show ?thesis by simp
  qed
qed

lemma upsert_keys:
  assumes "\<And>r. k (f r) = k r" "k new = key"
  shows "set (map k (upsert (\<lambda>r. k r = key) f new rows)) = insert key (set (map k rows))"
  using assms by (induction rows) auto

lemma upsert_distinct:
  assumes "\<And>r. k (f r) = k r" "k new = key"
  shows "distinct (map k rows) \<Longrightarrow> distinct (map k (upsert (\<lambda>r. k r = key) f new rows))"
proof (induction rows)
  case Nil
  then show ?case by simp
next
  case (Cons r rs)
  show ?case
  proof (cases "k r = key")
    case True
    with Cons.prems assms show ?thesis by simp
  next
    case False
    have "k r \<notin> set (map k (upsert (\<lambda>r. k r = key) f new rs))"
      unfolding upsert_keys [OF assms] using False Cons.prems by simp
    with False Cons show ?thesis by simp
  qed
qed

lemma spendCredits_none:
  "session c = None \<Longrightarrow> db (snd (spendCredits now c a w)) = db w"
  by (simp add: spendCredits_def transaction_def Let_def)

text \<open>
  Claim C2. A \<^verbatim>\<open>FeatureUsage\<close> table that holds at most one row for each pair of user id
  and date still does after any call of any procedure of the router. A call other than
  \<^verbatim>\<open>spendCredits\<close> leaves the table as it was. \<^verbatim>\<open>spendCredits\<close> adds the amount to the
  caller's row for the start of today when there is one, and the other rows stay; it
  creates a row, with the amount, only when there is none.
\<close>

theorem featureUsage_one_row_per_user_day:
  assumes "one_row_per_user_day w"
  shows "one_row_per_user_day (call e now c p w) \<and>
     ((\<forall>amount. p \<noteq> SpendCredits amount) \<longrightarrow>
        featureUsage (db (call e now c p w)) = featureUsage (db w)) \<and>
     (\<forall>amount s. p = SpendCredits amount \<and> session c = Some s \<longrightarrow>
        featureUsage (db (call e now c p w)) =
          (if \<exists>r\<in>set (featureUsage (db w)).
                userId r = user_id (user s) \<and> date r = startOfDay now
           then map (\<lambda>r. if userId r = user_id (user s) \<and> date r = startOfDay now
                         then r\<lparr>buttonClicks := buttonClicks r + amount\<rparr> else r)
                  (featureUsage (db w))
           else featureUsage (db w) @
                  [\<lparr>userId = user_id (user s), date = startOfDay now, buttonClicks = amount\<rparr>]))"
proof -
  have d: "distinct (map usage_key (featureUsage (db w)))"
    using assms by (simp add: one_row_per_user_day_def)
  have spend: "featureUsage (db (snd (spendCredits now c a w))) =
      (if \<exists>r\<in>set (featureUsage (db w)). userId r = user_id (user s) \<and> date r = startOfDay now
       then map (\<lambda>r. if userId r = user_id (user s) \<and> date r = startOfDay now
                     then r\<lparr>buttonClicks := buttonClicks r + a\<rparr> else r)
              (featureUsage (db w))
       else featureUsage (db w) @
              [\<lparr>userId = user_id (user s), date = startOfDay now, buttonClicks = a\<rparr>])"
    if "session c = Some s" for a s
    using upsert_unique [OF d, of "(user_id (user s), startOfDay now)"
        "\<lambda>r. r\<lparr>buttonClicks := buttonClicks r + a\<rparr>"
        "\<lparr>userId = user_id (user s), date = startOfDay now, buttonClicks = a\<rparr>"]
    by (simp add: spendCredits_rows [OF that] usage_key_def)
  have inv_spend: "one_row_per_user_day (snd (spendCredits now c a w))" for a
  proof (cases "session c")
    case None
    then show ?thesis using assms
      by (simp add: one_row_per_user_day_def spendCredits_none)
  next
    case (Some s)
    have "distinct (map usage_key
        (upsert (\<lambda>r. usage_key r = (user_id (user s), startOfDay now))
          (\<lambda>r. r\<lparr>buttonClicks := buttonClicks r + a\<rparr>)
          \<lparr>userId = user_id (user s), date = startOfDay now, buttonClicks = a\<rparr>
          (featureUsage (db w))))"
      by (rule upsert_distinct [OF _ _ d]) (simp_all add: usage_key_def)
    then show ?thesis
      by (simp add: one_row_per_user_day_def spendCredits_rows [OF Some] usage_key_def)
  qed
  have inv: "one_row_per_user_day (call e now c p w)"
  proof (cases "\<exists>a. p = SpendCredits a")
    case True
    then show ?thesis using inv_spend by auto
  next
    case False
    then show ?thesis using assms
      by (simp add: one_row_per_user_day_def call_keeps_featureUsage)
  qed
  show ?thesis
    using inv call_keeps_featureUsage [of p e now c w] spend by auto
qed

theorem featureUsage_one_row_per_user_day_witness:
  "one_row_per_user_day
     (call configured (on_day 3 9) (signed_in alice) (SpendCredits 3)
        (world_with [\<lparr>userId = ''u1'', date = startOfDay (on_day 3 0), buttonClicks = 4\<rparr>] [] shop)) \<and>
   featureUsage (db
     (call configured (on_day 3 9) (signed_in alice) (SpendCredits 3)
        (world_with [\<lparr>userId = ''u1'', date = startOfDay (on_day 3 0), buttonClicks = 4\<rparr>] [] shop))) =
     [\<lparr>userId = ''u1'', date = startOfDay (on_day 3 0), buttonClicks = 7\<rparr>]"
  using featureUsage_one_row_per_user_day
    [where w = "world_with [\<lparr>userId = ''u1'', date = startOfDay (on_day 3 0), buttonClicks = 4\<rparr>] [] shop"
       and e = configured and now = "on_day 3 9" and c = "signed_in alice" and p = "SpendCredits 3"]
  by (simp add: one_row_per_user_day_def usage_key_def sample_defs date_defs)

subsection \<open>Usage totals\<close>

lemma foldl_buttonClicks:
  "foldl (\<lambda>acc u. acc + buttonClicks u) a rows = a + sum_list (map buttonClicks rows)"
  by (induction rows arbitrary: a) simp_all

text \<open>
  Claim C8. For a caller with a session, \<^verbatim>\<open>getUsageForUser\<close> returns as
  \<open>totalButtonClicksThisMonth\<close> the sum of \<open>buttonClicks\<close> over the caller's rows dated on or
  after midnight of the first day of the current month. As \<open>totalButtonClicksToday\<close> it
  returns 0 when the caller has no row dated on or after midnight of today, and otherwise
  the \<open>buttonClicks\<close> of such a row, the one the store returns: of the only one when there
  is one only.
\<close>

theorem getUsageForUser_totals:
  assumes "session c = Some s"
  shows "\<exists>today.
     fst (getUsageForUser now c w) =
       Inr \<lparr>totalButtonClicksToday = today,
            totalButtonClicksThisMonth =
              sum_list (map buttonClicks
                (filter (\<lambda>r. userId r = user_id (user s) \<and>
                              gte (date r) (now\<lparr>day := 1, hours := 0, minutes := 0,
                                                 seconds := 0, milliseconds := 0\<rparr>))
                   (featureUsage (db w))))\<rparr> \<and>
     (if filter (\<lambda>r. userId r = user_id (user s) \<and>
                      gte (date r) (now\<lparr>hours := 0, minutes := 0, seconds := 0,
                                         milliseconds := 0\<rparr>))
           (featureUsage (db w)) = []
      then today = 0
      else today \<in> buttonClicks `
             set (filter (\<lambda>r. userId r = user_id (user s) \<and>
                               gte (date r) (now\<lparr>hours := 0, minutes := 0, seconds := 0,
                                                  milliseconds := 0\<rparr>))
                    (featureUsage (db w))))"
proof -
  let ?rows = "filter (\<lambda>r. userId r = user_id (user s) \<and>
      gte (date r) (now\<lparr>hours := 0, minutes := 0, seconds := 0, milliseconds := 0\<rparr>))
    (featureUsage (db w))"
  let ?n = "pick (db w) (FeatureUsage_findFirst (user_id (user s))
      (now\<lparr>hours := 0, minutes := 0, seconds := 0, milliseconds := 0\<rparr>))"
  have "(if ?rows = [] then (case chosen ?n ?rows of None \<Rightarrow> 0 | Some r \<Rightarrow> buttonClicks r) = 0
         else (case chosen ?n ?rows of None \<Rightarrow> 0 | Some r \<Rightarrow> buttonClicks r)
                \<in> buttonClicks ` set ?rows)"
  proof (cases "?rows = []")
    case True
    then show ?thesis by simp
  next
    case False
    from chosen_in [OF this, of ?n] obtain r where "r \<in> set ?rows" "chosen ?n ?rows = Some r"
      by blast
    with False show ?thesis by (simp del: set_filter)
  qed
  then show ?thesis
    using assms
    by (simp add: getUsageForUser_def featureUsage_findFirst_def featureUsage_findMany_def
        foldl_buttonClicks startOfDay_def startOfMonth_def setHours_def setDate_def Let_def
        del: set_filter)
qed

theorem getUsageForUser_totals_witness:
  "fst (getUsageForUser (on_day 3 20) (signed_in alice)
      (world_with
         [\<lparr>userId = ''u1'', date = startOfDay (on_day 1 0), buttonClicks = 4\<rparr>,
          \<lparr>userId = ''u2'', date = startOfDay (on_day 3 0), buttonClicks = 100\<rparr>,
          \<lparr>userId = ''u1'', date = startOfDay (on_day 3 0), buttonClicks = 6\<rparr>] [] shop)) =
   Inr \<lparr>totalButtonClicksToday = 6, totalButtonClicksThisMonth = 10\<rparr>"
  using getUsageForUser_totals [where c = "signed_in alice" and s = "\<lparr>user = alice\<rparr>"
      and now = "on_day 3 20"
      and w = "world_with
         [\<lparr>userId = ''u1'', date = startOfDay (on_day 1 0), buttonClicks = 4\<rparr>,
          \<lparr>userId = ''u2'', date = startOfDay (on_day 3 0), buttonClicks = 100\<rparr>,
          \<lparr>userId = ''u1'', date = startOfDay (on_day 3 0), buttonClicks = 6\<rparr>] [] shop"]
  by (simp add: sample_defs date_defs)

subsection \<open>Admin-only procedures\<close>

text \<open>
  Claim C3. For a caller whose session role is not \<^verbatim>\<open>SUPER_ADMIN\<close>, \<^verbatim>\<open>createLsWebhook\<close> and
  \<^verbatim>\<open>createPlansFromLemonSqueezyVariants\<close> both throw an \<^verbatim>\<open>Error\<close> with the message
  \<^verbatim>\<open>Unauthorized access to the resource\<close>. The first leaves the world as it was but for the
  client setup it records, which is neither a request to the provider nor a write; the
  second leaves the world as it was. So no webhook is created and the store is not
  written.
\<close>

theorem admin_only_rejects_other_roles:
  assumes "session c = Some s" and "role (user s) \<noteq> ''SUPER_ADMIN''"
  shows "createLsWebhook e c w =
       (Inl (Error ''Unauthorized access to the resource''),
        emit (LemonSqueezySetup (LEMON_SQUEEZY_API_KEY e)) w) \<and>
     createPlansFromLemonSqueezyVariants e c w =
       (Inl (Error ''Unauthorized access to the resource''), w) \<and>
     \<not> network_call (LemonSqueezySetup (LEMON_SQUEEZY_API_KEY e)) \<and>
     \<not> db_write (LemonSqueezySetup (LEMON_SQUEEZY_API_KEY e))"
  using assms
  by (simp add: createLsWebhook_def createPlansFromLemonSqueezyVariants_def Let_def)

theorem admin_only_rejects_other_roles_witness:
  "createLsWebhook configured (signed_in alice) (world_with [] [] shop) =
     (Inl (Error ''Unauthorized access to the resource''),
      emit (LemonSqueezySetup (Some ''key'')) (world_with [] [] shop)) \<and>
   createPlansFromLemonSqueezyVariants configured (signed_in alice) (world_with [] [] shop) =
     (Inl (Error ''Unauthorized access to the resource''), world_with [] [] shop)"
  using admin_only_rejects_other_roles [where c = "signed_in alice" and s = "\<lparr>user = alice\<rparr>"
      and e = configured and w = "world_with [] [] shop"]
  by (simp add: signed_in_def alice_def configured_def)

subsection \<open>Subscription lookup\<close>

text \<open>
  Claim C10. For a caller with a session and no \<^verbatim>\<open>LemonSqueezySubscription\<close> row of theirs,
  \<^verbatim>\<open>getSubscriptionByUserId\<close> returns no subscription and no variant. Its trace is the
  client setup, the subscription lookup and the plan lookup with an absent variant id as
  its filter: \<^verbatim>\<open>getVariant\<close> is not called. With that filter every plan matches, and the
  plan returned is the store's choice among the plans of the table.
\<close>

theorem getSubscriptionByUserId_without_subscription:
  assumes "session c = Some s"
    and "\<forall>x\<in>set (lemonSqueezySubscription (db w)). subscription_userId x \<noteq> user_id (user s)"
  shows "getSubscriptionByUserId e c w =
     (Inr \<lparr>res_subscription = None, res_variant = None,
           res_plan = chosen (pick (db w) (Plan_findFirst None)) (plan (db w))\<rparr>,
      w\<lparr>trace := trace w @
          [LemonSqueezySetup (LEMON_SQUEEZY_API_KEY e),
           Subscription_findFirst (user_id (user s)),
           Plan_findFirst None]\<rparr>)"
proof -
  have "filter (\<lambda>x. subscription_userId x = user_id (user s)) (lemonSqueezySubscription (db w)) = []"
    using assms(2) by (simp add: filter_empty_conv)
  then show ?thesis
    using assms(1)
    by (simp add: getSubscriptionByUserId_def setupLemonSqueezy_def subscription_findFirst_def
        plan_findFirst_def truthy_def emit_def Let_def)
qed

theorem getSubscriptionByUserId_without_subscription_witness:
  "getSubscriptionByUserId configured (signed_in alice)
     (world_with [] [\<lparr>lemonSqueezyVariantId = ''v2'', plan_name = ''Yearly''\<rparr>] shop) =
     (Inr \<lparr>res_subscription = None, res_variant = None,
           res_plan = Some \<lparr>lemonSqueezyVariantId = ''v2'', plan_name = ''Yearly''\<rparr>\<rparr>,
      (world_with [] [\<lparr>lemonSqueezyVariantId = ''v2'', plan_name = ''Yearly''\<rparr>] shop)
        \<lparr>trace := [LemonSqueezySetup (Some ''key''), Subscription_findFirst ''u1'',
                   Plan_findFirst None]\<rparr>)"
  using getSubscriptionByUserId_without_subscription
    [where c = "signed_in alice" and s = "\<lparr>user = alice\<rparr>" and e = configured
      and w = "world_with [] [\<lparr>lemonSqueezyVariantId = ''v2'', plan_name = ''Yearly''\<rparr>] shop"]
  by (simp add: signed_in_def alice_def configured_def world_with_def)

subsection \<open>Checkout\<close>

text \<open>
  Claim C9, as amended. When \<^verbatim>\<open>LEMON_SQUEEZY_STORE_ID\<close> is set and not empty,
  \<^verbatim>\<open>createCheckoutForVariant\<close> succeeds for a request with no session, for every input
  whose \<open>variantId\<close> is not empty: it calls \<^verbatim>\<open>createCheckout\<close> with the email
  \<^verbatim>\<open>"undefined"\<close> and no \<^verbatim>\<open>userIdInDatabase\<close>, the call resolves, and the handler returns
  its response.
\<close>

theorem createCheckoutForVariant_without_session:
  assumes "session c = None" and "truthy (LEMON_SQUEEZY_STORE_ID e) = Some storeId"
    and "variantId' \<noteq> []"
  shows "\<exists>checkout w'.
     createCheckout storeId variantId'
       \<lparr>checkout_email = ''undefined'', checkout_userIdInDatabase = None,
        checkout_redirectUrl = template (NEXT_PUBLIC_DEPLOYMENT_URL e) @ ''/billing'',
        checkout_embed = embed'\<rparr>
       (setupLemonSqueezy e w) = (Inr checkout, w') \<and>
     createCheckoutForVariant e c variantId' embed' w = (Inr checkout, w')"
proof -
  have "storeId \<noteq> []"
    using assms(2) by (auto simp add: truthy_def split: option.splits if_splits)
  then show ?thesis
    using assms
    by (simp add: createCheckoutForVariant_def createCheckout_def requiredCheck_def
        split_def Let_def)
qed

theorem createCheckoutForVariant_without_session_witness:
  "createCheckoutForVariant configured anonymous ''v1'' (Some True) (world_with [] [] shop) =
     (Inr (Response (Some
        \<lparr>checkout_storeId = ''1'', checkout_variantId = ''v1'',
         checkout_options =
           \<lparr>checkout_email = ''undefined'', checkout_userIdInDatabase = None,
            checkout_redirectUrl = ''https://app.example.org/billing'',
            checkout_embed = Some True\<rparr>\<rparr>)),
      (world_with [] [] shop)
        \<lparr>trace := [LemonSqueezySetup (Some ''key''),
                   CreateCheckout ''1'' ''v1''
                     \<lparr>checkout_email = ''undefined'', checkout_userIdInDatabase = None,
                      checkout_redirectUrl = ''https://app.example.org/billing'',
                      checkout_embed = Some True\<rparr>]\<rparr>)"
  using createCheckoutForVariant_without_session
    [where c = anonymous and e = configured and storeId = "''1''" and variantId' = "''v1''"
      and embed' = "Some True" and w = "world_with [] [] shop"]
  by (simp add: anonymous_def configured_def world_with_def shop_def truthy_def template_def
      createCheckout_def requiredCheck_def fetch_def apiKey_def setupLemonSqueezy_def emit_def)

text \<open>
  Claim C9 as it is written holds for every input. The input schema admits the empty
  string as \<open>variantId\<close>: for a request with no session and that input,
  \<^verbatim>\<open>createCheckout\<close> throws on its required parameter, no request is sent and the handler
  throws. With no \<^verbatim>\<open>LEMON_SQUEEZY_STORE_ID\<close> the handler's own guard throws before the call.
\<close>

theorem createCheckoutForVariant_empty_variant_counterexample:
  "createCheckoutForVariant configured anonymous [] None (world_with [] [] shop) =
     (Inl (Error ''Please provide the required parameter: variantId.''),
      (world_with [] [] shop)\<lparr>trace := [LemonSqueezySetup (Some ''key'')]\<rparr>) \<and>
   createCheckoutForVariant (configured\<lparr>LEMON_SQUEEZY_STORE_ID := None\<rparr>) anonymous ''v1'' None
     (world_with [] [] shop) =
     (Inl (Error ''Missing required LEMON_SQUEEZY_STORE_ID env variable. Please, set it in your .env file.''),
      (world_with [] [] shop)\<lparr>trace := [LemonSqueezySetup (Some ''key'')]\<rparr>)"
  by (simp add: createCheckoutForVariant_def createCheckout_def requiredCheck_def anonymous_def
      configured_def world_with_def truthy_def setupLemonSqueezy_def emit_def Let_def)

subsection \<open>Responses with no data\<close>

text \<open>
  Claim C7, as amended. When the provider's responses carry no data,
  \<^verbatim>\<open>createPlansFromLemonSqueezyVariants\<close>, called by a \<^verbatim>\<open>SUPER_ADMIN\<close>, throws an \<^verbatim>\<open>Error\<close>
  with the message \<^verbatim>\<open>Failed to fetch variants from Lemon Squeezy.\<close>; \<^verbatim>\<open>getProductById\<close>
  returns an absent product and absent variants, and \<^verbatim>\<open>getProductsFromLemonSqueezy\<close>
  returns an absent list: these two do not throw. For an empty \<open>productId\<close> there is no
  response: \<^verbatim>\<open>getProduct\<close> throws on its required parameter before any request.
\<close>

theorem no_data_responses:
  assumes "\<not> ls_up (lemonsqueezy w)"
  shows "(session c = Some s \<and> role (user s) = ''SUPER_ADMIN'' \<longrightarrow>
        fst (createPlansFromLemonSqueezyVariants e c w) =
          Inl (Error ''Failed to fetch variants from Lemon Squeezy.'')) \<and>
     fst (getProductById e productId hide w) =
       (if productId = [] then Inl (Error ''Please provide the required parameter: productId.'')
        else Inr \<lparr>res_product = None, res_variants = None\<rparr>) \<and>
     fst (getProductsFromLemonSqueezy e w) = Inr None"
  using assms
  by (auto simp add: createPlansFromLemonSqueezyVariants_def getProductById_def
      getProductsFromLemonSqueezy_def sdk_defs plan_findMany_def split_def Let_def
      split: option.splits)

theorem no_data_responses_witness:
  "fst (createPlansFromLemonSqueezyVariants configured (signed_in admin)
          (world_with [] [] (shop\<lparr>ls_up := False\<rparr>))) =
     Inl (Error ''Failed to fetch variants from Lemon Squeezy.'') \<and>
   fst (getProductById configured ''7'' None (world_with [] [] (shop\<lparr>ls_up := False\<rparr>))) =
     Inr \<lparr>res_product = None, res_variants = None\<rparr> \<and>
   fst (getProductsFromLemonSqueezy configured (world_with [] [] (shop\<lparr>ls_up := False\<rparr>))) =
     Inr None"
  using no_data_responses [where w = "world_with [] [] (shop\<lparr>ls_up := False\<rparr>)"
      and c = "signed_in admin" and s = "\<lparr>user = admin\<rparr>" and e = configured
      and productId = "''7''" and hide = None]
  by (simp add: world_with_def shop_def signed_in_def admin_def)

text \<open>
  Claim C7 as it is written has \<^verbatim>\<open>getProductById\<close> throw. Here both of its requests are
  sent and answered with no data, and it returns.
\<close>

theorem getProductById_no_data_counterexample:
  "fst (getProduct ''7'' (setupLemonSqueezy configured (world_with [] [] (shop\<lparr>ls_up := False\<rparr>)))) =
     Inr (Response None) \<and>
   data (fst (listVariants (Some ''7'')
     (setupLemonSqueezy configured (world_with [] [] (shop\<lparr>ls_up := False\<rparr>))))) = None \<and>
   getProductById configured ''7'' None (world_with [] [] (shop\<lparr>ls_up := False\<rparr>)) =
     (Inr \<lparr>res_product = None, res_variants = None\<rparr>,
      (world_with [] [] (shop\<lparr>ls_up := False\<rparr>))
        \<lparr>trace := [LemonSqueezySetup (Some ''key''), GetProduct ''7'',
                   ListVariants (Some ''7'')]\<rparr>)"
  by (simp add: getProductById_def sdk_defs apiKey_def truthy_def emit_def configured_def
      world_with_def shop_def split_def Let_def)

subsection \<open>Missing configuration\<close>

text \<open>
  With no webhook URL, \<^verbatim>\<open>hasWebhook\<close>, \<^verbatim>\<open>getWebhook\<close> and \<^verbatim>\<open>createLsWebhook\<close> throw after the
  client setup and before any request; with no store id so does
  \<^verbatim>\<open>createCheckoutForVariant\<close>.
\<close>

lemma missing_webhook_url:
  assumes "truthy (LEMON_SQUEEZY_WEBHOOK_URL e) = None"
  shows "hasWebhook e w =
       (Inl (Error ''Missing required WEBHOOK_URL env variable. Please, set it in your .env file.''),
        emit (LemonSqueezySetup (LEMON_SQUEEZY_API_KEY e)) w)"
    and "getWebhook e w = hasWebhook e w"
    and "session c = Some s \<Longrightarrow> role (user s) = ''SUPER_ADMIN'' \<Longrightarrow>
       createLsWebhook e c w =
         (Inl (Error ''Missing required LEMON_SQUEEZY_WEBHOOK_URL env variable. Please, set it in your .env file.''),
          emit (LemonSqueezySetup (LEMON_SQUEEZY_API_KEY e)) w)"
  using assms
  by (simp_all add: hasWebhook_def getWebhook_def createLsWebhook_def setupLemonSqueezy_def Let_def)

lemma missing_store_id_checkout:
  assumes "truthy (LEMON_SQUEEZY_STORE_ID e) = None"
  shows "createCheckoutForVariant e c variantId' embed' w =
       (Inl (Error ''Missing required LEMON_SQUEEZY_STORE_ID env variable. Please, set it in your .env file.''),
        emit (LemonSqueezySetup (LEMON_SQUEEZY_API_KEY e)) w)"
  using assms by (simp add: createCheckoutForVariant_def setupLemonSqueezy_def Let_def)

text \<open>
  Claim C4 at the inputs where the code departs from it. \<^verbatim>\<open>createLsWebhook\<close> reads the
  store id and the webhook secret with \<^verbatim>\<open>!\<close> and checks neither. Called by a
  \<^verbatim>\<open>SUPER_ADMIN\<close> with the webhook URL set and the secret absent, it lists the webhooks,
  asks for the creation with the absent secret, and returns. With the store id absent it
  lists the webhooks all the same, and throws only afterwards, inside \<^verbatim>\<open>createWebhook\<close>.
\<close>

theorem createLsWebhook_unchecked_store_and_secret:
  "createLsWebhook (configured\<lparr>LEMON_SQUEEZY_WEBHOOK_SECRET := None\<rparr>) (signed_in admin)
     (world_with [] [] shop) =
     (Inr (),
      (world_with [] [] shop)
        \<lparr>trace := [LemonSqueezySetup (Some ''key''), LemonSqueezySetup (Some ''key''),
                   ListWebhooks None,
                   CreateWebhook (Some ''1'')
                     \<lparr>new_secret = None, new_url = ''https://app.example.org/api/webhook'',
                      new_testMode = True,
                      new_events = [''subscription_created'', ''subscription_expired'',
                                    ''subscription_updated'']\<rparr>]\<rparr>) \<and>
   createLsWebhook (configured\<lparr>LEMON_SQUEEZY_STORE_ID := None\<rparr>) (signed_in admin)
     (world_with [] [] shop) =
     (Inl (Error ''Please provide the required parameter: storeId.''),
      (world_with [] [] shop)
        \<lparr>trace := [LemonSqueezySetup (Some ''key''), LemonSqueezySetup (Some ''key''),
                   ListWebhooks None]\<rparr>)"
  by (simp add: createLsWebhook_def hasWebhook_def sdk_defs apiKey_def register_def
      registered_def in_store_def truthy_def emit_def sample_defs split_def Let_def)

subsection \<open>Plans from variants\<close>

lemma find_append:
  "find P (xs @ ys) = (case find P xs of None \<Rightarrow> find P ys | Some x \<Rightarrow> Some x)"
  by (induction xs) auto

lemma existing_other:
  "variant_id v' \<noteq> variant_id v \<Longrightarrow> existing (ps @ [plan_of v]) v' = existing ps v'"
  by (simp add: existing_def find_append plan_of_def split: option.splits)

lemma findPlans_found: "fst (findPlans vs w) = map (existing (plan (db w))) vs"
  by (induction vs arbitrary: w)
    (simp_all add: plan_findUnique_def existing_def split_def Let_def)

lemma findPlans_lemonsqueezy: "lemonsqueezy (snd (findPlans vs w)) = lemonsqueezy w"
  by (induction vs arbitrary: w) (simp_all add: plan_findUnique_def split_def Let_def)

lemma findPlans_apiKey: "apiKey (snd (findPlans vs w)) = apiKey w"
  by (induction vs arbitrary: w)
    (simp_all add: plan_findUnique_def apiKey_emit split_def Let_def)

lemma resumePlans_frame:
  "lemonsqueezy (snd (resumePlans xs w)) = lemonsqueezy w"
  "apiKey (snd (resumePlans xs w)) = apiKey w"
proof (induction xs arbitrary: w)
  case Nil
  { case 1 show ?case by simp }
  { case 2 show ?case by simp }
next
  case (Cons x xs)
  obtain v found where x: "x = (v, found)" by (cases x)
  { case 1 show ?case
      by (cases found) (simp_all add: x Cons.IH plan_create_def split_def Let_def) }
  { case 2 show ?case
      by (cases found) (simp_all add: x Cons.IH plan_create_def apiKey_emit split_def Let_def) }
qed

lemma Promise_all_Inr: "Promise_all (map (\<lambda>x. Inr (f x)) xs) = Inr (map f xs)"
  by (induction xs) simp_all

text \<open>
  The callbacks resumed for variants with pairwise different ids, none of which has had
  its row created since the lookups: each returns the row its lookup found or creates its
  own, and no creation is rejected.
\<close>

lemma resumePlans_effect:
  "distinct (map variant_id us) \<Longrightarrow>
   \<forall>v\<in>set us. existing P0 v = None \<longrightarrow> existing (plan (db w)) v = None \<Longrightarrow>
   fst (resumePlans (zip us (map (existing P0) us)) w) =
     map (\<lambda>v. Inr (case existing P0 v of None \<Rightarrow> plan_of v | Some p \<Rightarrow> p)) us \<and>
   plan (db (snd (resumePlans (zip us (map (existing P0) us)) w))) =
     plan (db w) @ map plan_of (filter (\<lambda>v. existing P0 v = None) us)"
proof (induction us arbitrary: w)
  case Nil
  then show ?case by simp
next
  case (Cons v us)
  have d: "distinct (map variant_id us)" and other: "\<forall>v'\<in>set us. variant_id v' \<noteq> variant_id v"
    using Cons.prems(1) by (force simp add: image_iff)+
  show ?case
  proof (cases "existing P0 v")
    case (Some p)
    have "\<forall>v'\<in>set us. existing P0 v' = None \<longrightarrow> existing (plan (db w)) v' = None"
      using Cons.prems(2) by simp
    from Cons.IH [OF d this] Some show ?thesis
      by (simp add: split_def Let_def)
  next
    case None
    then have free: "existing (plan (db w)) v = None"
      using Cons.prems(2) by simp
    let ?w1 = "snd (plan_create (plan_of v) w)"
    have created: "plan_create (plan_of v) w =
        (Inr (plan_of v), emit (Plan_create (plan_of v))
           (w\<lparr>db := (db w)\<lparr>plan := plan (db w) @ [plan_of v]\<rparr>\<rparr>))"
      using free by (simp add: plan_create_def existing_def plan_of_def)
    have "\<forall>v'\<in>set us. existing P0 v' = None \<longrightarrow> existing (plan (db ?w1)) v' = None"
      using Cons.prems(2) other by (simp add: created existing_other)
    from Cons.IH [OF d this] None show ?thesis
      using created by (simp add: split_def Let_def plan_of_def)
  qed
qed

lemma createPlans_effect:
  assumes "distinct (map variant_id vs)"
  shows "fst (createPlans vs w) =
       Inr (map (\<lambda>v. case existing (plan (db w)) v of None \<Rightarrow> plan_of v | Some p \<Rightarrow> p) vs)"
    and "plan (db (snd (createPlans vs w))) =
       plan (db w) @ map plan_of (filter (\<lambda>v. existing (plan (db w)) v = None) vs)"
    and "lemonsqueezy (snd (createPlans vs w)) = lemonsqueezy w"
    and "apiKey (snd (createPlans vs w)) = apiKey w"
proof -
  let ?w1 = "snd (findPlans vs w)"
  have p: "plan (db ?w1) = plan (db w)"
    by (simp add: findPlans_db)
  have eff: "fst (resumePlans (zip vs (map (existing (plan (db w))) vs)) ?w1) =
       map (\<lambda>v. Inr (case existing (plan (db w)) v of None \<Rightarrow> plan_of v | Some p \<Rightarrow> p)) vs \<and>
     plan (db (snd (resumePlans (zip vs (map (existing (plan (db w))) vs)) ?w1))) =
       plan (db ?w1) @ map plan_of (filter (\<lambda>v. existing (plan (db w)) v = None) vs)"
    by (rule resumePlans_effect [OF assms]) (simp add: p)
  show "fst (createPlans vs w) =
       Inr (map (\<lambda>v. case existing (plan (db w)) v of None \<Rightarrow> plan_of v | Some p \<Rightarrow> p) vs)"
    by (simp only: createPlans_def split_def Let_def findPlans_found fst_conv conjunct1 [OF eff]
        Promise_all_Inr)
  show "plan (db (snd (createPlans vs w))) =
       plan (db w) @ map plan_of (filter (\<lambda>v. existing (plan (db w)) v = None) vs)"
    using eff by (simp add: createPlans_def split_def Let_def findPlans_found p)
  show "lemonsqueezy (snd (createPlans vs w)) = lemonsqueezy w"
    by (simp add: createPlans_def split_def Let_def resumePlans_frame findPlans_lemonsqueezy)
  show "apiKey (snd (createPlans vs w)) = apiKey w"
    by (simp add: createPlans_def split_def Let_def resumePlans_frame findPlans_apiKey)
qed

lemma existing_after:
  assumes "distinct (map variant_id vs)" and "v \<in> set vs"
  shows "existing (ps @ map plan_of (filter (\<lambda>v. existing ps v = None) vs)) v =
     Some (case existing ps v of None \<Rightarrow> plan_of v | Some p \<Rightarrow> p)"
proof (cases "existing ps v")
  case (Some p)
  then show ?thesis by (simp add: existing_def find_append)
next
  case None
  have "find (\<lambda>p. lemonSqueezyVariantId p = variant_id v) (map plan_of us) = Some (plan_of v)"
    if "distinct (map variant_id us)" "v \<in> set us" for us
    using that by (induction us) (auto simp add: plan_of_def)
  moreover have "distinct (map variant_id (filter (\<lambda>v. existing ps v = None) vs))"
    using assms(1) by (simp add: distinct_map_filter)
  moreover have "v \<in> set (filter (\<lambda>v. existing ps v = None) vs)"
    using assms(2) None by simp
  ultimately show ?thesis
    using None by (simp add: existing_def find_append)
qed

text \<open>
  Claim C5, as amended. A \<^verbatim>\<open>SUPER_ADMIN\<close> calls \<^verbatim>\<open>createPlansFromLemonSqueezyVariants\<close> and
  the provider returns variants whose ids are pairwise different. The returned list has
  one plan for each variant, in order: the row of the table with the variant's id when
  there is one, and otherwise a new row with the variant's id and name. The table
  afterwards is the old table followed by one new row for each variant that had none. A
  second run on the same provider data returns the same plans and adds no row.
\<close>

theorem createPlans_create_if_missing:
  assumes "session c = Some s" and "role (user s) = ''SUPER_ADMIN''"
    and "fst (listVariants None (setupLemonSqueezy e w)) = Response (Some vs)"
    and "distinct (map variant_id vs)"
  shows "fst (createPlansFromLemonSqueezyVariants e c w) =
       Inr (map (\<lambda>v. case existing (plan (db w)) v of None \<Rightarrow> plan_of v | Some p \<Rightarrow> p) vs) \<and>
     plan (db (snd (createPlansFromLemonSqueezyVariants e c w))) =
       plan (db w) @ map plan_of (filter (\<lambda>v. existing (plan (db w)) v = None) vs) \<and>
     fst (listVariants None
            (setupLemonSqueezy e (snd (createPlansFromLemonSqueezyVariants e c w)))) =
       Response (Some vs) \<and>
     fst (createPlansFromLemonSqueezyVariants e c
            (snd (createPlansFromLemonSqueezyVariants e c w))) =
       fst (createPlansFromLemonSqueezyVariants e c w) \<and>
     plan (db (snd (createPlansFromLemonSqueezyVariants e c
            (snd (createPlansFromLemonSqueezyVariants e c w))))) =
       plan (db (snd (createPlansFromLemonSqueezyVariants e c w)))"
proof -
  let ?ps = "plan (db w)"
  let ?w' = "snd (createPlansFromLemonSqueezyVariants e c w)"
  have resp: "fst (listVariants None (setupLemonSqueezy e x)) =
      fst (listVariants None (setupLemonSqueezy e w))"
    if "lemonsqueezy x = lemonsqueezy w" for x
    using that
    by (simp add: listVariants_def fetch_def setupLemonSqueezy_def apiKey_emit split: option.splits)
  have run: "fst (createPlansFromLemonSqueezyVariants e c x) =
        Inr (map (\<lambda>v. case existing (plan (db x)) v of None \<Rightarrow> plan_of v | Some p \<Rightarrow> p) vs) \<and>
      plan (db (snd (createPlansFromLemonSqueezyVariants e c x))) =
        plan (db x) @ map plan_of (filter (\<lambda>v. existing (plan (db x)) v = None) vs) \<and>
      lemonsqueezy (snd (createPlansFromLemonSqueezyVariants e c x)) = lemonsqueezy x"
    if "lemonsqueezy x = lemonsqueezy w" for x
  proof -
    let ?x2 = "snd (listVariants None (setupLemonSqueezy e x))"
    have r: "fst (listVariants None (setupLemonSqueezy e x)) = Response (Some vs)"
      using resp [OF that] assms(3) by simp
    have "createPlansFromLemonSqueezyVariants e c x = createPlans vs ?x2"
      using assms(1,2) r
      by (simp add: createPlansFromLemonSqueezyVariants_def split_def Let_def)
    moreover have "plan (db ?x2) = plan (db x)" "lemonsqueezy ?x2 = lemonsqueezy x"
      by (simp_all add: listVariants_def setupLemonSqueezy_def)
    ultimately show ?thesis
      using createPlans_effect [OF assms(4), of ?x2] by simp
  qed
  note first = run [OF refl]
  from first have prov: "lemonsqueezy ?w' = lemonsqueezy w" by simp
  note second = run [OF prov]
  have ex: "existing (plan (db ?w')) v =
      Some (case existing ?ps v of None \<Rightarrow> plan_of v | Some p \<Rightarrow> p)" if "v \<in> set vs" for v
    using first existing_after [OF assms(4) that, of ?ps] by simp
  have res: "map (\<lambda>v. case existing (plan (db ?w')) v of None \<Rightarrow> plan_of v | Some p \<Rightarrow> p) vs =
      map (\<lambda>v. case existing ?ps v of None \<Rightarrow> plan_of v | Some p \<Rightarrow> p) vs"
    by (rule map_cong) (simp_all add: ex)
  have none: "filter (\<lambda>v. existing (plan (db ?w')) v = None) vs = []"
    by (simp add: filter_empty_conv ex)
  have again: "fst (createPlansFromLemonSqueezyVariants e c ?w') =
        Inr (map (\<lambda>v. case existing ?ps v of None \<Rightarrow> plan_of v | Some p \<Rightarrow> p) vs)"
      "plan (db (snd (createPlansFromLemonSqueezyVariants e c ?w'))) = plan (db ?w')"
    using second by (simp_all add: res none)
  show ?thesis
    using first again resp [OF prov] assms(3) by simp
qed

theorem createPlans_create_if_missing_witness:
  "fst (createPlansFromLemonSqueezyVariants configured (signed_in admin)
          (world_with [] [\<lparr>lemonSqueezyVariantId = ''v2'', plan_name = ''Old yearly''\<rparr>] shop)) =
     Inr [\<lparr>lemonSqueezyVariantId = ''v1'', plan_name = ''Monthly''\<rparr>,
          \<lparr>lemonSqueezyVariantId = ''v2'', plan_name = ''Old yearly''\<rparr>] \<and>
   plan (db (snd (createPlansFromLemonSqueezyVariants configured (signed_in admin)
          (world_with [] [\<lparr>lemonSqueezyVariantId = ''v2'', plan_name = ''Old yearly''\<rparr>] shop)))) =
     [\<lparr>lemonSqueezyVariantId = ''v2'', plan_name = ''Old yearly''\<rparr>,
      \<lparr>lemonSqueezyVariantId = ''v1'', plan_name = ''Monthly''\<rparr>] \<and>
   plan (db (snd (createPlansFromLemonSqueezyVariants configured (signed_in admin)
     (snd (createPlansFromLemonSqueezyVariants configured (signed_in admin)
          (world_with [] [\<lparr>lemonSqueezyVariantId = ''v2'', plan_name = ''Old yearly''\<rparr>] shop)))))) =
     [\<lparr>lemonSqueezyVariantId = ''v2'', plan_name = ''Old yearly''\<rparr>,
      \<lparr>lemonSqueezyVariantId = ''v1'', plan_name = ''Monthly''\<rparr>]"
  using createPlans_create_if_missing
    [where c = "signed_in admin" and s = "\<lparr>user = admin\<rparr>" and e = configured
      and w = "world_with [] [\<lparr>lemonSqueezyVariantId = ''v2'', plan_name = ''Old yearly''\<rparr>] shop"
      and vs = "[monthly, yearly]"]
  by (simp add: signed_in_def admin_def world_with_def shop_def monthly_def yearly_def
      configured_def listVariants_def fetch_def apiKey_def setupLemonSqueezy_def emit_def
      of_product_def truthy_def existing_def plan_of_def)

text \<open>
  Claim C5 as it is written holds for every list of variants the provider returns. Here
  the provider returns two variants with the id \<^verbatim>\<open>v1\<close> and the table has no plan for it:
  both lookups find nothing, the first callback creates the row, the creation of the
  second is rejected with \<^verbatim>\<open>P2002\<close>, and the handler throws instead of returning one plan for
  each variant.
\<close>

theorem createPlans_repeated_id_counterexample:
  "createPlansFromLemonSqueezyVariants configured (signed_in admin)
     (world_with [] []
        (shop\<lparr>ls_variants := [monthly, monthly\<lparr>variant_name := ''Monthly again''\<rparr>]\<rparr>)) =
     (Inl (PrismaClientKnownRequestError ''P2002''),
      \<lparr>db = (db (world_with [] [] shop))
              \<lparr>plan := [\<lparr>lemonSqueezyVariantId = ''v1'', plan_name = ''Monthly''\<rparr>]\<rparr>,
       lemonsqueezy = shop\<lparr>ls_variants := [monthly, monthly\<lparr>variant_name := ''Monthly again''\<rparr>]\<rparr>,
       trace = [LemonSqueezySetup (Some ''key''), ListVariants None,
                Plan_findUnique ''v1'', Plan_findUnique ''v1'',
                Plan_create \<lparr>lemonSqueezyVariantId = ''v1'', plan_name = ''Monthly''\<rparr>,
                Plan_create \<lparr>lemonSqueezyVariantId = ''v1'', plan_name = ''Monthly again''\<rparr>]\<rparr>)"
  by (simp add: createPlansFromLemonSqueezyVariants_def createPlans_def listVariants_def
      fetch_def apiKey_def setupLemonSqueezy_def plan_findUnique_def plan_create_def
      of_product_def truthy_def emit_def signed_in_def admin_def configured_def world_with_def
      shop_def monthly_def split_def Let_def)

subsection \<open>Webhook registration\<close>

text \<open>
  Past the role check, with a webhook URL, an API key and a store id,
  \<^verbatim>\<open>createLsWebhook\<close> calls \<^verbatim>\<open>createWebhook\<close> exactly when \<^verbatim>\<open>hasWebhook\<close> finds no listed
  webhook with that URL in test mode. The listing is filtered by
  \<^verbatim>\<open>process.env.LEMONSQUEEZY_STORE_ID\<close>, the creation goes to \<^verbatim>\<open>env.LEMON_SQUEEZY_STORE_ID\<close>.
  When the first is absent or names the same store, a second call after a first that
  registered its webhook registers no other.
\<close>

lemma hasWebhook_listed:
  "truthy (LEMON_SQUEEZY_WEBHOOK_URL e) = Some webhookUrl \<Longrightarrow>
   truthy (LEMON_SQUEEZY_API_KEY e) = Some k \<Longrightarrow>
   hasWebhook e w =
     (Inr (listed e webhookUrl (lemonsqueezy w)),
      emit (ListWebhooks (process_env_LEMONSQUEEZY_STORE_ID e))
        (emit (LemonSqueezySetup (LEMON_SQUEEZY_API_KEY e)) w))"
  by (simp add: hasWebhook_def listed_def listWebhooks_def fetch_def setupLemonSqueezy_def
      apiKey_emit Let_def)

lemma createLsWebhook_create_if_missing:
  assumes "session c = Some s" and "role (user s) = ''SUPER_ADMIN''"
    and "truthy (LEMON_SQUEEZY_WEBHOOK_URL e) = Some webHookUrl"
    and "truthy (LEMON_SQUEEZY_API_KEY e) = Some k"
    and "truthy (LEMON_SQUEEZY_STORE_ID e) = Some storeId"
  shows "createLsWebhook e c w =
     (Inr (),
      (if listed e webHookUrl (lemonsqueezy w) = None
       then (\<lambda>x. emit (CreateWebhook (LEMON_SQUEEZY_STORE_ID e) (webhook_request e webHookUrl))
                   (x\<lparr>lemonsqueezy :=
                        register storeId (webhook_request e webHookUrl) (lemonsqueezy x)\<rparr>))
       else (\<lambda>x. x))
        (emit (ListWebhooks (process_env_LEMONSQUEEZY_STORE_ID e))
          (emit (LemonSqueezySetup (LEMON_SQUEEZY_API_KEY e))
            (emit (LemonSqueezySetup (LEMON_SQUEEZY_API_KEY e)) w))))"
  using assms
  by (simp add: createLsWebhook_def hasWebhook_listed [OF assms(3,4)] createWebhook_def
      webhook_request_def apiKey_emit Let_def)

lemma createLsWebhook_twice:
  assumes "session c = Some s" and "role (user s) = ''SUPER_ADMIN''"
    and "truthy (LEMON_SQUEEZY_WEBHOOK_URL e) = Some webHookUrl"
    and "truthy (LEMON_SQUEEZY_API_KEY e) = Some k"
    and "truthy (LEMON_SQUEEZY_STORE_ID e) = Some storeId"
    and "truthy (LEMON_SQUEEZY_WEBHOOK_SECRET e) = Some sec"
    and "ls_up (lemonsqueezy w)"
    and "process_env_LEMONSQUEEZY_STORE_ID e = None \<or>
         process_env_LEMONSQUEEZY_STORE_ID e = Some storeId"
  shows "ls_webhooks (lemonsqueezy (snd (createLsWebhook e c (snd (createLsWebhook e c w))))) =
     ls_webhooks (lemonsqueezy (snd (createLsWebhook e c w)))"
proof -
  let ?w' = "snd (createLsWebhook e c w)"
  note step = createLsWebhook_create_if_missing [OF assms(1-5)]
  have found: "listed e webHookUrl (lemonsqueezy ?w') \<noteq> None"
  proof (cases "listed e webHookUrl (lemonsqueezy w)")
    case None
    let ?new = "\<lparr>webhook_store_id = storeId, url = webHookUrl, test_mode = True,
      events = [''subscription_created'', ''subscription_expired'', ''subscription_updated'']\<rparr>"
    have reg: "lemonsqueezy ?w' =
        (lemonsqueezy w)\<lparr>ls_webhooks := ls_webhooks (lemonsqueezy w) @ [?new]\<rparr>"
      using None assms(6,7)
      by (simp add: step register_def registered_def webhook_request_def)
    have "in_store (process_env_LEMONSQUEEZY_STORE_ID e) ?new"
      using assms(8) by (auto simp add: in_store_def)
    then have "?new \<in> set (filter (in_store (process_env_LEMONSQUEEZY_STORE_ID e))
        (ls_webhooks (lemonsqueezy ?w')))"
      by (simp add: reg)
    moreover have "url ?new = webHookUrl \<and> test_mode ?new"
      by simp
    ultimately have "find (\<lambda>wh. url wh = webHookUrl \<and> test_mode wh)
        (filter (in_store (process_env_LEMONSQUEEZY_STORE_ID e))
          (ls_webhooks (lemonsqueezy ?w'))) \<noteq> None"
      unfolding find_None_iff by blast
    moreover have "ls_up (lemonsqueezy ?w')"
      using assms(7) by (simp add: reg)
    ultimately show ?thesis
      using assms(4) by (simp add: listed_def)
  next
    case (Some wh)
    then show ?thesis
      by (simp add: step)
  qed
  then obtain wh where "listed e webHookUrl (lemonsqueezy ?w') = Some wh"
    by auto
  then show ?thesis
    by (simp add: step [of ?w'])
qed

text \<open>
  Claim C6 at the input where the code departs from it. The listing is filtered by store
  \<^verbatim>\<open>"2"\<close> and the webhook is created in store \<^verbatim>\<open>"1"\<close>: the first call registers the webhook,
  the second does not find it and registers it again.
\<close>

theorem createLsWebhook_twice_other_store:
  "createLsWebhook (configured\<lparr>process_env_LEMONSQUEEZY_STORE_ID := Some ''2''\<rparr>) (signed_in admin)
     (world_with [] [] shop) =
     (Inr (),
      \<lparr>db = db (world_with [] [] shop),
       lemonsqueezy = shop\<lparr>ls_webhooks :=
         [\<lparr>webhook_store_id = ''1'', url = ''https://app.example.org/api/webhook'',
           test_mode = True,
           events = [''subscription_created'', ''subscription_expired'',
                     ''subscription_updated'']\<rparr>]\<rparr>,
       trace = [LemonSqueezySetup (Some ''key''), LemonSqueezySetup (Some ''key''),
                ListWebhooks (Some ''2''),
                CreateWebhook (Some ''1'')
                  (webhook_request configured ''https://app.example.org/api/webhook'')]\<rparr>) \<and>
   ls_webhooks (lemonsqueezy (snd
     (createLsWebhook (configured\<lparr>process_env_LEMONSQUEEZY_STORE_ID := Some ''2''\<rparr>)
        (signed_in admin)
        (snd (createLsWebhook (configured\<lparr>process_env_LEMONSQUEEZY_STORE_ID := Some ''2''\<rparr>)
                (signed_in admin) (world_with [] [] shop)))))) =
     [\<lparr>webhook_store_id = ''1'', url = ''https://app.example.org/api/webhook'',
       test_mode = True,
       events = [''subscription_created'', ''subscription_expired'', ''subscription_updated'']\<rparr>,
      \<lparr>webhook_store_id = ''1'', url = ''https://app.example.org/api/webhook'',
       test_mode = True,
       events = [''subscription_created'', ''subscription_expired'', ''subscription_updated'']\<rparr>]"
  by (simp add: createLsWebhook_def hasWebhook_def sdk_defs apiKey_def register_def
      registered_def in_store_def truthy_def webhook_request_def emit_def sample_defs
      split_def Let_def)

end
